theory Spec2Isabelle
  imports Main "HOL-Library.Word"
begin

section \<open>Bytes, exceptions and Python primitives\<close>

text \<open>
  The camera accessory of \<^verbatim>\<open>pyhap/_camera.py\<close> works on Python \<^verbatim>\<open>bytes\<close>
  objects. A byte is an 8-bit word, a \<^verbatim>\<open>bytes\<close> object a list of them. A
  dictionary produced by \<^verbatim>\<open>tlv.decode\<close> has one-byte keys, so it is a map from
  bytes to byte strings.

  The setter callbacks receive base64 text and call \<^verbatim>\<open>base64ToBytes\<close> on it, and
  values are published through \<^verbatim>\<open>toBase64Str\<close>. Both helpers live in
  \<^verbatim>\<open>pyhap.util\<close>; the model works on the byte strings between them: an incoming
  value is the byte string \<^verbatim>\<open>base64ToBytes\<close> returned, an outgoing value the byte
  string handed to \<^verbatim>\<open>toBase64Str\<close>.
\<close>

type_synonym byte = "8 word"
type_synonym bytes = "byte list"
type_synonym tlv_dict = "byte \<rightharpoonup> bytes"

text \<open>The exceptions the modelled code can raise.\<close>

datatype exn =
    KeyError
  | IndexError
  | TypeError
  | StructError
  | UnboundLocalError
  | UnicodeDecodeError
  | MalformedTlv
  | OSError

text \<open>Sequencing of steps that may raise: the first exception ends the computation.\<close>

definition andthen :: "exn + 'a \<Rightarrow> ('a \<Rightarrow> exn + 'b) \<Rightarrow> exn + 'b" where
  "andthen r f = (case r of Inl e \<Rightarrow> Inl e | Inr x \<Rightarrow> f x)"

text \<open>\<^verbatim>\<open>d[k]\<close>: KeyError when the key is absent.\<close>

definition subscript :: "('k \<rightharpoonup> 'v) \<Rightarrow> 'k \<Rightarrow> exn + 'v" where
  "subscript d k = (case d k of None \<Rightarrow> Inl KeyError | Some v \<Rightarrow> Inr v)"

text \<open>\<^verbatim>\<open>b[0]\<close> on a bytes object: the first byte as an integer, IndexError when empty.\<close>

definition first_byte :: "bytes \<Rightarrow> exn + nat" where
  "first_byte b = (case b of [] \<Rightarrow> Inl IndexError | x # _ \<Rightarrow> Inr (unat x))"

text \<open>
  \<^verbatim>\<open>if v: ... \<close> for a value that is \<^verbatim>\<open>None\<close> or a bytes object: the branch is
  taken when the value is present and not empty.
\<close>

definition if_truthy :: "bytes option \<Rightarrow> (bytes \<Rightarrow> 'a) \<Rightarrow> 'a \<Rightarrow> 'a" where
  "if_truthy v f d = (case v of None \<Rightarrow> d | Some b \<Rightarrow> if b = [] then d else f b)"

text \<open>
  \<^verbatim>\<open>struct.unpack('<H', b)[0]\<close>, \<^verbatim>\<open>struct.unpack('<B', b)[0]\<close> and
  \<^verbatim>\<open>struct.pack('<H', n)\<close>: the buffer must have exactly the size of the format,
  and the packed number must fit 16 bits; otherwise \<^verbatim>\<open>struct.error\<close>.
\<close>

definition unpack_H :: "bytes \<Rightarrow> exn + nat" where
  "unpack_H b = (case b of [lo, hi] \<Rightarrow> Inr (unat lo + 256 * unat hi) | _ \<Rightarrow> Inl StructError)"

definition unpack_B :: "bytes \<Rightarrow> exn + nat" where
  "unpack_B b = (case b of [x] \<Rightarrow> Inr (unat x) | _ \<Rightarrow> Inl StructError)"

definition pack_H :: "int \<Rightarrow> exn + bytes" where
  "pack_H n = (if 0 \<le> n \<and> n \<le> 65535
               then Inr [word_of_int (n mod 256), word_of_int (n div 256)]
               else Inl StructError)"

text \<open>
  \<^verbatim>\<open>b.decode('utf8')\<close> raises UnicodeDecodeError unless the bytes are well-formed
  UTF-8 (no overlong forms, no surrogates, nothing above U+10FFFF). A decoded string is
  kept as its UTF-8 bytes.
\<close>

definition cont :: "byte \<Rightarrow> bool" where
  "cont c = (0x80 \<le> c \<and> c \<le> 0xBF)"

fun utf8_ok :: "bytes \<Rightarrow> bool" where
  "utf8_ok [] = True"
| "utf8_ok (b # bs) =
     (if b \<le> 0x7F then utf8_ok bs
      else if 0xC2 \<le> b \<and> b \<le> 0xDF then
        (case bs of c # r \<Rightarrow> cont c \<and> utf8_ok r | _ \<Rightarrow> False)
      else if 0xE0 \<le> b \<and> b \<le> 0xEF then
        (case bs of
           c # d # r \<Rightarrow>
             (if b = 0xE0 then 0xA0 \<le> c \<and> c \<le> 0xBF
              else if b = 0xED then 0x80 \<le> c \<and> c \<le> 0x9F
              else cont c) \<and> cont d \<and> utf8_ok r
         | _ \<Rightarrow> False)
      else if 0xF0 \<le> b \<and> b \<le> 0xF4 then
        (case bs of
           c # d # e # r \<Rightarrow>
             (if b = 0xF0 then 0x90 \<le> c \<and> c \<le> 0xBF
              else if b = 0xF4 then 0x80 \<le> c \<and> c \<le> 0x8F
              else cont c) \<and> cont d \<and> cont e \<and> utf8_ok r
         | _ \<Rightarrow> False)
      else False)"

definition decode_utf8 :: "bytes \<Rightarrow> exn + bytes" where
  "decode_utf8 b = (if utf8_ok b then Inr b else Inl UnicodeDecodeError)"

section \<open>The TLV8 codec\<close>

text \<open>
  Modelled from the spec: the module \<^verbatim>\<open>pyhap.tlv\<close> (\<^verbatim>\<open>tlv.encode\<close>,
  \<^verbatim>\<open>tlv.decode\<close>) is imported by \<^verbatim>\<open>_camera.py\<close> but is not among the source
  files. The spec's section 4.1 describes it: a pair whose value has at most 255 bytes is
  emitted as type, length, value; a longer value is split into consecutive 255-byte chunks
  and one final chunk of the remainder, emitted even when empty, all under the same type.
\<close>

function tlv_fragments :: "byte \<Rightarrow> bytes \<Rightarrow> bytes" where
  "tlv_fragments t v =
     (if length v < 255 then t # of_nat (length v) # v
      else t # 255 # take 255 v @ tlv_fragments t (drop 255 v))"
  by pat_completeness auto
termination
  by (relation "measure (\<lambda>(t, v). length v)") auto

definition tlv_encode_pair :: "byte \<times> bytes \<Rightarrow> bytes" where
  "tlv_encode_pair p =
     (case p of (t, v) \<Rightarrow>
        if length v \<le> 255 then t # of_nat (length v) # v else tlv_fragments t v)"

definition tlv_encode :: "(byte \<times> bytes) list \<Rightarrow> bytes" where
  "tlv_encode pairs = concat (map tlv_encode_pair pairs)"

text \<open>
  Modelled from the spec: decoding scans the entries in order and remembers the previous
  entry's type and length. An entry whose type equals the previous entry's type, when that
  entry's length was exactly 255, continues it; any other entry starts a new value, which
  replaces an earlier one of the same type. A declared length beyond the end of the buffer
  (or a type byte with no length byte after it) is a malformed input.
\<close>

function tlv_decode_from ::
  "tlv_dict \<Rightarrow> (byte \<times> nat) option \<Rightarrow> bytes \<Rightarrow> exn + tlv_dict" where
  "tlv_decode_from m prev [] = Inr m"
| "tlv_decode_from m prev [t] = Inl MalformedTlv"
| "tlv_decode_from m prev (t # l # rest) =
     (if length rest < unat l then Inl MalformedTlv
      else
        tlv_decode_from
          (if prev = Some (t, 255)
           then m(t \<mapsto> (case m t of None \<Rightarrow> [] | Some old \<Rightarrow> old) @ take (unat l) rest)
           else m(t \<mapsto> take (unat l) rest))
          (Some (t, unat l))
          (drop (unat l) rest))"
  by pat_completeness auto
termination
  by (relation "measure (\<lambda>(m, prev, bs). length bs)") auto

definition tlv_decode :: "bytes \<Rightarrow> exn + tlv_dict" where
  "tlv_decode bs = tlv_decode_from Map.empty None bs"

section \<open>The protocol's constants\<close>

text \<open>
  The dictionaries of constants at the top of \<^verbatim>\<open>_camera.py\<close>, one name per
  entry that the modelled functions use: a type is one byte, a value a byte string.
\<close>

abbreviation SETUP_TYPES_SESSION_ID :: byte where "SETUP_TYPES_SESSION_ID \<equiv> 0x01"
abbreviation SETUP_TYPES_STATUS :: byte where "SETUP_TYPES_STATUS \<equiv> 0x02"
abbreviation SETUP_TYPES_ADDRESS :: byte where "SETUP_TYPES_ADDRESS \<equiv> 0x03"
abbreviation SETUP_TYPES_VIDEO_SRTP_PARAM :: byte where "SETUP_TYPES_VIDEO_SRTP_PARAM \<equiv> 0x04"
abbreviation SETUP_TYPES_AUDIO_SRTP_PARAM :: byte where "SETUP_TYPES_AUDIO_SRTP_PARAM \<equiv> 0x05"
abbreviation SETUP_TYPES_VIDEO_SSRC :: byte where "SETUP_TYPES_VIDEO_SSRC \<equiv> 0x06"
abbreviation SETUP_TYPES_AUDIO_SSRC :: byte where "SETUP_TYPES_AUDIO_SSRC \<equiv> 0x07"

abbreviation SETUP_STATUS_SUCCESS :: bytes where "SETUP_STATUS_SUCCESS \<equiv> [0x00]"

abbreviation SETUP_ADDR_INFO_ADDRESS_VER :: byte where "SETUP_ADDR_INFO_ADDRESS_VER \<equiv> 0x01"
abbreviation SETUP_ADDR_INFO_ADDRESS :: byte where "SETUP_ADDR_INFO_ADDRESS \<equiv> 0x02"
abbreviation SETUP_ADDR_INFO_VIDEO_RTP_PORT :: byte where
  "SETUP_ADDR_INFO_VIDEO_RTP_PORT \<equiv> 0x03"
abbreviation SETUP_ADDR_INFO_AUDIO_RTP_PORT :: byte where
  "SETUP_ADDR_INFO_AUDIO_RTP_PORT \<equiv> 0x04"

abbreviation SETUP_SRTP_PARAM_CRYPTO :: byte where "SETUP_SRTP_PARAM_CRYPTO \<equiv> 0x01"
abbreviation SETUP_SRTP_PARAM_MASTER_KEY :: byte where "SETUP_SRTP_PARAM_MASTER_KEY \<equiv> 0x02"
abbreviation SETUP_SRTP_PARAM_MASTER_SALT :: byte where "SETUP_SRTP_PARAM_MASTER_SALT \<equiv> 0x03"

abbreviation STREAMING_STATUS_AVAILABLE :: bytes where "STREAMING_STATUS_AVAILABLE \<equiv> [0x00]"
abbreviation STREAMING_STATUS_STREAMING :: bytes where "STREAMING_STATUS_STREAMING \<equiv> [0x01]"

abbreviation RTP_CONFIG_TYPES_CRYPTO :: byte where "RTP_CONFIG_TYPES_CRYPTO \<equiv> 0x02"

abbreviation SRTP_CRYPTO_SUITES_AES_CM_128_HMAC_SHA1_80 :: bytes where
  "SRTP_CRYPTO_SUITES_AES_CM_128_HMAC_SHA1_80 \<equiv> [0x00]"
abbreviation SRTP_CRYPTO_SUITES_NONE :: bytes where "SRTP_CRYPTO_SUITES_NONE \<equiv> [0x02]"

abbreviation VIDEO_TYPES_CODEC :: byte where "VIDEO_TYPES_CODEC \<equiv> 0x01"
abbreviation VIDEO_TYPES_CODEC_PARAM :: byte where "VIDEO_TYPES_CODEC_PARAM \<equiv> 0x02"
abbreviation VIDEO_TYPES_ATTRIBUTES :: byte where "VIDEO_TYPES_ATTRIBUTES \<equiv> 0x03"
abbreviation VIDEO_TYPES_RTP_PARAM :: byte where "VIDEO_TYPES_RTP_PARAM \<equiv> 0x04"

abbreviation VIDEO_CODEC_TYPES_H264 :: bytes where "VIDEO_CODEC_TYPES_H264 \<equiv> [0x00]"

abbreviation VIDEO_CODEC_PARAM_TYPES_PROFILE_ID :: byte where
  "VIDEO_CODEC_PARAM_TYPES_PROFILE_ID \<equiv> 0x01"
abbreviation VIDEO_CODEC_PARAM_TYPES_LEVEL :: byte where
  "VIDEO_CODEC_PARAM_TYPES_LEVEL \<equiv> 0x02"
abbreviation VIDEO_CODEC_PARAM_TYPES_PACKETIZATION_MODE :: byte where
  "VIDEO_CODEC_PARAM_TYPES_PACKETIZATION_MODE \<equiv> 0x03"

abbreviation VIDEO_CODEC_PARAM_PACKETIZATION_MODE_TYPES_NON_INTERLEAVED :: bytes where
  "VIDEO_CODEC_PARAM_PACKETIZATION_MODE_TYPES_NON_INTERLEAVED \<equiv> [0x00]"

abbreviation VIDEO_ATTRIBUTES_TYPES_IMAGE_WIDTH :: byte where
  "VIDEO_ATTRIBUTES_TYPES_IMAGE_WIDTH \<equiv> 0x01"
abbreviation VIDEO_ATTRIBUTES_TYPES_IMAGE_HEIGHT :: byte where
  "VIDEO_ATTRIBUTES_TYPES_IMAGE_HEIGHT \<equiv> 0x02"
abbreviation VIDEO_ATTRIBUTES_TYPES_FRAME_RATE :: byte where
  "VIDEO_ATTRIBUTES_TYPES_FRAME_RATE \<equiv> 0x03"

abbreviation SELECTED_STREAM_CONFIGURATION_TYPES_SESSION :: byte where
  "SELECTED_STREAM_CONFIGURATION_TYPES_SESSION \<equiv> 0x01"
abbreviation SELECTED_STREAM_CONFIGURATION_TYPES_VIDEO :: byte where
  "SELECTED_STREAM_CONFIGURATION_TYPES_VIDEO \<equiv> 0x02"
abbreviation SELECTED_STREAM_CONFIGURATION_TYPES_AUDIO :: byte where
  "SELECTED_STREAM_CONFIGURATION_TYPES_AUDIO \<equiv> 0x03"

abbreviation RTP_PARAM_TYPES_PAYLOAD_TYPE :: byte where "RTP_PARAM_TYPES_PAYLOAD_TYPE \<equiv> 0x01"
abbreviation RTP_PARAM_TYPES_SYNCHRONIZATION_SOURCE :: byte where
  "RTP_PARAM_TYPES_SYNCHRONIZATION_SOURCE \<equiv> 0x02"
abbreviation RTP_PARAM_TYPES_MAX_BIT_RATE :: byte where "RTP_PARAM_TYPES_MAX_BIT_RATE \<equiv> 0x03"
abbreviation RTP_PARAM_TYPES_RTCP_SEND_INTERVAL :: byte where
  "RTP_PARAM_TYPES_RTCP_SEND_INTERVAL \<equiv> 0x04"
abbreviation RTP_PARAM_TYPES_COMFORT_NOISE_PAYLOAD_TYPE :: byte where
  "RTP_PARAM_TYPES_COMFORT_NOISE_PAYLOAD_TYPE \<equiv> 0x06"

abbreviation AUDIO_TYPES_CODEC :: byte where "AUDIO_TYPES_CODEC \<equiv> 0x01"
abbreviation AUDIO_TYPES_CODEC_PARAM :: byte where "AUDIO_TYPES_CODEC_PARAM \<equiv> 0x02"
abbreviation AUDIO_TYPES_RTP_PARAM :: byte where "AUDIO_TYPES_RTP_PARAM \<equiv> 0x03"
abbreviation AUDIO_TYPES_COMFORT_NOISE :: byte where "AUDIO_TYPES_COMFORT_NOISE \<equiv> 0x04"

abbreviation AUDIO_CODEC_TYPES_AACELD :: bytes where "AUDIO_CODEC_TYPES_AACELD \<equiv> [0x02]"
abbreviation AUDIO_CODEC_TYPES_OPUS :: bytes where "AUDIO_CODEC_TYPES_OPUS \<equiv> [0x03]"

abbreviation AUDIO_CODEC_PARAM_TYPES_CHANNEL :: byte where
  "AUDIO_CODEC_PARAM_TYPES_CHANNEL \<equiv> 0x01"
abbreviation AUDIO_CODEC_PARAM_TYPES_BIT_RATE :: byte where
  "AUDIO_CODEC_PARAM_TYPES_BIT_RATE \<equiv> 0x02"
abbreviation AUDIO_CODEC_PARAM_TYPES_SAMPLE_RATE :: byte where
  "AUDIO_CODEC_PARAM_TYPES_SAMPLE_RATE \<equiv> 0x03"
abbreviation AUDIO_CODEC_PARAM_TYPES_PACKET_TIME :: byte where
  "AUDIO_CODEC_PARAM_TYPES_PACKET_TIME \<equiv> 0x04"

abbreviation AUDIO_CODEC_PARAM_BIT_RATE_TYPES_VARIABLE :: bytes where
  "AUDIO_CODEC_PARAM_BIT_RATE_TYPES_VARIABLE \<equiv> [0x00]"

abbreviation AUDIO_CODEC_PARAM_SAMPLE_RATE_TYPES_KHZ_8 :: bytes where
  "AUDIO_CODEC_PARAM_SAMPLE_RATE_TYPES_KHZ_8 \<equiv> [0x00]"
abbreviation AUDIO_CODEC_PARAM_SAMPLE_RATE_TYPES_KHZ_16 :: bytes where
  "AUDIO_CODEC_PARAM_SAMPLE_RATE_TYPES_KHZ_16 \<equiv> [0x01]"
abbreviation AUDIO_CODEC_PARAM_SAMPLE_RATE_TYPES_KHZ_24 :: bytes where
  "AUDIO_CODEC_PARAM_SAMPLE_RATE_TYPES_KHZ_24 \<equiv> [0x02]"

section \<open>Capability encoders\<close>

subsection \<open>Audio\<close>

text \<open>
  \<^verbatim>\<open>get_supported_audio_stream_config(audio_params)\<close> reads
  \<^verbatim>\<open>audio_params['codecs']\<close>, a list of dictionaries with a \<^verbatim>\<open>'type'\<close> and a
  \<^verbatim>\<open>'samplerate'\<close>, and the optional \<^verbatim>\<open>'comfort_noise'\<close>. The warnings it logs are
  part of its result. A log entry stands for one call of \<^verbatim>\<open>logger.warning\<close> or
  \<^verbatim>\<open>logger.error\<close>; debug messages and printed lines are left out.
\<close>

record codec_param =
  codec_type :: string
  samplerate :: int

record audio_params =
  codecs :: "codec_param list"
  comfort_noise :: "bool option"

datatype log_entry =
    Warning_unsupported_codec string
  | Warning_unsupported_sample_rate int
  | Warning_no_supported_codec
  | Error_bad_request
  | Error_unknown_request_type nat

text \<open>
  The body of the loop over the codecs. The loop state is the flag
  \<^verbatim>\<open>has_supported_codec\<close>, the bytes \<^verbatim>\<open>configs\<close> collected so far and the log.
  The flag is set as soon as the codec kind is recognised, before the sample rate is
  looked at; \<^verbatim>\<open>continue\<close> leaves \<^verbatim>\<open>configs\<close> as it is.
\<close>

definition audio_codec_step ::
  "bool \<times> bytes \<times> log_entry list \<Rightarrow> codec_param \<Rightarrow> bool \<times> bytes \<times> log_entry list" where
  "audio_codec_step st codec_param =
     (case st of (has_supported_codec, configs, logged) \<Rightarrow>
        let param_type = codec_type codec_param in
        case (if param_type = ''OPUS''
                then Some (AUDIO_CODEC_TYPES_OPUS, AUDIO_CODEC_PARAM_BIT_RATE_TYPES_VARIABLE)
              else if param_type = ''AAC-eld''
                then Some (AUDIO_CODEC_TYPES_AACELD, AUDIO_CODEC_PARAM_BIT_RATE_TYPES_VARIABLE)
              else None) of
          None \<Rightarrow>
            (has_supported_codec, configs, logged @ [Warning_unsupported_codec param_type])
        | Some (codec, bitrate) \<Rightarrow>
            let param_samplerate = samplerate codec_param in
            case (if param_samplerate = 8
                    then Some AUDIO_CODEC_PARAM_SAMPLE_RATE_TYPES_KHZ_8
                  else if param_samplerate = 16
                    then Some AUDIO_CODEC_PARAM_SAMPLE_RATE_TYPES_KHZ_16
                  else if param_samplerate = 24
                    then Some AUDIO_CODEC_PARAM_SAMPLE_RATE_TYPES_KHZ_24
                  else None) of
              None \<Rightarrow>
                (True, configs, logged @ [Warning_unsupported_sample_rate param_samplerate])
            | Some sr \<Rightarrow>
                let param_tlv =
                      tlv_encode [(AUDIO_CODEC_PARAM_TYPES_CHANNEL, [0x01]),
                                  (AUDIO_CODEC_PARAM_TYPES_BIT_RATE, bitrate),
                                  (AUDIO_CODEC_PARAM_TYPES_SAMPLE_RATE, sr)];
                    config_tlv =
                      tlv_encode [(AUDIO_TYPES_CODEC, codec),
                                  (AUDIO_TYPES_CODEC_PARAM, param_tlv)]
                in (True, configs @ tlv_encode [(0x01, config_tlv)], logged))"

definition get_supported_audio_stream_config :: "audio_params \<Rightarrow> bytes \<times> log_entry list" where
  "get_supported_audio_stream_config params =
     (case foldl audio_codec_step (False, [], []) (codecs params) of
        (has_supported_codec, configs, logged) \<Rightarrow>
          let (configs', logged') =
                (if \<not> has_supported_codec then
                   (let codec = AUDIO_CODEC_TYPES_OPUS;
                        bitrate = AUDIO_CODEC_PARAM_BIT_RATE_TYPES_VARIABLE;
                        sr = AUDIO_CODEC_PARAM_SAMPLE_RATE_TYPES_KHZ_24;
                        param_tlv =
                          tlv_encode [(AUDIO_CODEC_PARAM_TYPES_CHANNEL, [0x01]),
                                      (AUDIO_CODEC_PARAM_TYPES_BIT_RATE, bitrate),
                                      (AUDIO_CODEC_PARAM_TYPES_SAMPLE_RATE, sr)];
                        config_tlv =
                          tlv_encode [(AUDIO_TYPES_CODEC, codec),
                                      (AUDIO_TYPES_CODEC_PARAM, param_tlv)]
                    in (tlv_encode [(0x01, config_tlv)], logged @ [Warning_no_supported_codec]))
                 else (configs, logged));
              cn = (if comfort_noise params = Some True then [0x01] else [0x00]) :: bytes
          in (configs' @ tlv_encode [(0x02, cn)], logged'))"

subsection \<open>Transport security\<close>

definition get_supported_rtp_config :: "bool \<Rightarrow> bytes" where
  "get_supported_rtp_config srtp =
     (let crypto = (if srtp then SRTP_CRYPTO_SUITES_AES_CM_128_HMAC_SHA1_80
                    else SRTP_CRYPTO_SUITES_NONE)
      in tlv_encode [(RTP_CONFIG_TYPES_CRYPTO, crypto)])"

subsection \<open>Video\<close>

text \<open>
  \<^verbatim>\<open>get_supported_video_stream_config(video_params)\<close> reads
  \<^verbatim>\<open>video_params['codec']\<close> with its \<^verbatim>\<open>'profiles'\<close> and \<^verbatim>\<open>'levels'\<close> (byte
  strings) and \<^verbatim>\<open>video_params['resolutions']\<close>, a list of triples of integers.
  All three numbers of a triple are packed with the format \<^verbatim>\<open>'<H'\<close>.
\<close>

record video_codec =
  profiles :: "bytes list"
  levels :: "bytes list"

record video_params =
  codec :: video_codec
  resolutions :: "(int \<times> int \<times> int) list"

definition resolution_tlv :: "int \<times> int \<times> int \<Rightarrow> exn + bytes" where
  "resolution_tlv resolution =
     (case resolution of (r0, r1, r2) \<Rightarrow>
        andthen (pack_H r0) (\<lambda>image_width.
        andthen (pack_H r1) (\<lambda>image_height.
        andthen (pack_H r2) (\<lambda>frame_rate.
          Inr (tlv_encode [(VIDEO_ATTRIBUTES_TYPES_IMAGE_WIDTH, image_width),
                           (VIDEO_ATTRIBUTES_TYPES_IMAGE_HEIGHT, image_height),
                           (VIDEO_ATTRIBUTES_TYPES_FRAME_RATE, frame_rate)])))))"

fun attributes_loop :: "bytes \<Rightarrow> (int \<times> int \<times> int) list \<Rightarrow> exn + bytes" where
  "attributes_loop attr_tlv [] = Inr attr_tlv"
| "attributes_loop attr_tlv (resolution # rest) =
     (case resolution_tlv resolution of
        Inl e \<Rightarrow> Inl e
      | Inr res_tlv \<Rightarrow>
          attributes_loop (attr_tlv @ tlv_encode [(VIDEO_TYPES_ATTRIBUTES, res_tlv)]) rest)"

definition get_supported_video_stream_config :: "video_params \<Rightarrow> exn + bytes" where
  "get_supported_video_stream_config params =
     (let codec_params_tlv =
            tlv_encode [(VIDEO_CODEC_PARAM_TYPES_PACKETIZATION_MODE,
                         VIDEO_CODEC_PARAM_PACKETIZATION_MODE_TYPES_NON_INTERLEAVED)]
            @ concat (map (\<lambda>profile. tlv_encode [(VIDEO_CODEC_PARAM_TYPES_PROFILE_ID, profile)])
                        (profiles (codec params)))
            @ concat (map (\<lambda>level. tlv_encode [(VIDEO_CODEC_PARAM_TYPES_LEVEL, level)])
                        (levels (codec params)))
      in andthen (attributes_loop [] (resolutions params)) (\<lambda>attr_tlv.
           let config_tlv =
                 tlv_encode [(VIDEO_TYPES_CODEC, VIDEO_CODEC_TYPES_H264),
                             (VIDEO_TYPES_CODEC_PARAM, codec_params_tlv)]
           in Inr (tlv_encode [(0x01, config_tlv @ attr_tlv)])))"

section \<open>The accessory's state\<close>

text \<open>
  A session record is the dictionary \<^verbatim>\<open>set_endpoints\<close> stores under the session id;
  the key \<^verbatim>\<open>'process'\<close> is added by \<^verbatim>\<open>_start_stream\<close>. The address is a Python
  string, kept as its UTF-8 bytes.
\<close>

record session_info =
  address :: bytes
  video_port :: nat
  video_srtp_key :: bytes
  video_srtp_salt :: bytes
  video_ssrc :: bytes
  audio_port :: nat
  audio_srtp_key :: bytes
  audio_srtp_salt :: bytes
  audio_ssrc :: bytes
  process :: "nat option"

text \<open>
  The command line is \<^verbatim>\<open>FFMPEG_CMD.format(...)\<close>. The formatted text is kept as the
  list of its pieces: the literal text of the template and, for each placeholder, the
  value put there. The keyword arguments \<^verbatim>\<open>camera_source\<close>, \<^verbatim>\<open>video_ssrc\<close> and
  \<^verbatim>\<open>fps\<close> are passed to \<^verbatim>\<open>format\<close>, but the template has no placeholder for
  them: it fixes the frame rate (20) and the synchronization source (1) literally.
\<close>

datatype piece = Text string | Number nat | Base64 bytes | Str bytes

record format_kwargs =
  kw_camera_source :: string
  kw_address :: bytes
  kw_video_port :: nat
  kw_video_srtp_key :: bytes
  kw_video_ssrc :: nat
  kw_fps :: nat
  kw_width :: nat
  kw_height :: nat
  kw_bitrate :: nat
  kw_local_video_port :: nat

definition FFMPEG_CMD_format :: "format_kwargs \<Rightarrow> piece list" where
  "FFMPEG_CMD_format kw =
     [Text ''ffmpeg -f video4linux2 -input_format h264 -video_size '',
      Number (kw_width kw), Text ''x'', Number (kw_height kw),
      Text '' -framerate 20 -i /dev/video0 -vcodec copy -an -payload_type 99 -ssrc 1 -f rtsp -b:v '',
      Number (kw_bitrate kw), Text ''k -bufsize '', Number (kw_bitrate kw),
      Text ''k -payload_type 99 -f rtp -srtp_out_suite AES_CM_128_HMAC_SHA1_80 -srtp_out_params '',
      Base64 (kw_video_srtp_key kw),
      Text '' srtp://'', Str (kw_address kw), Text '':'', Number (kw_video_port kw),
      Text ''?rtcpport='', Number (kw_video_port kw),
      Text ''&localrtcpport='', Number (kw_local_video_port kw), Text ''&pkt_size=1378'']"

text \<open>
  The fields of \<^verbatim>\<open>CameraAccessory\<close> the handlers read or write, and what they reach
  outside the object: the values of the characteristics StreamingStatus and SetupEndpoints
  (written with \<^verbatim>\<open>set_value\<close>) and the calls of \<^verbatim>\<open>set_value\<close> the
  handlers made, in order; the processes started with \<^verbatim>\<open>subprocess.Popen\<close>
  (a process handle is the position of its command in \<open>processes\<close>), the handles on
  which \<^verbatim>\<open>kill()\<close> was called, and the warnings and errors logged. Whether
  \<^verbatim>\<open>Popen\<close> can start the program is a fact of the environment, \<open>popen_ok\<close>.
\<close>

datatype characteristic = StreamingStatus | SetupEndpoints

record camera =
  streaming_status :: bytes
  support_srtp :: bool
  stream_address :: bytes
  stream_address_isv6 :: bytes
  sessions :: "bytes \<rightharpoonup> session_info"
  selected_config :: "bytes option"
  setup_response :: "bytes option"
  session_id :: "bytes option"
  char_StreamingStatus :: bytes
  char_SetupEndpoints :: "bytes option"
  set_value_calls :: "(characteristic \<times> bytes) list"
  processes :: "piece list list"
  killed :: "nat list"
  popen_ok :: bool
  logged :: "log_entry list"

text \<open>
  A handler either returns or raises; an exception leaves the accessory as the statements
  executed before it made it.
\<close>

datatype outcome = Returned camera | Raised exn camera

definition NO_SRTP :: bytes where
  "NO_SRTP = [0x01, 0x01, 0x02, 0x02, 0x00, 0x03, 0x00]"

definition get_streaimg_status :: "camera \<Rightarrow> bytes" where
  "get_streaimg_status s = tlv_encode [(0x01, streaming_status s)]"

text \<open>
  The accessory after \<^verbatim>\<open>__init__\<close> and \<^verbatim>\<open>_set_services\<close>, for the options
  \<^verbatim>\<open>srtp\<close> and \<^verbatim>\<open>address\<close>; \<open>isv6\<close> is the outcome of the
  \<^verbatim>\<open>ipaddress.IPv4Address\<close> test on the address.
\<close>

definition new_camera :: "bool \<Rightarrow> bytes \<Rightarrow> bool \<Rightarrow> bool \<Rightarrow> camera" where
  "new_camera srtp addr isv6 popen =
     \<lparr>streaming_status = STREAMING_STATUS_AVAILABLE,
      support_srtp = srtp,
      stream_address = addr,
      stream_address_isv6 = (if isv6 then [0x01] else [0x00]),
      sessions = Map.empty,
      selected_config = None,
      setup_response = None,
      session_id = None,
      char_StreamingStatus = tlv_encode [(0x01, STREAMING_STATUS_AVAILABLE)],
      char_SetupEndpoints = None,
      set_value_calls = [],
      processes = [],
      killed = [],
      popen_ok = popen,
      logged = []\<rparr>"

section \<open>The endpoint negotiator\<close>

text \<open>
  \<^verbatim>\<open>set_endpoints(value)\<close>, first half: every field is read from the request before
  anything is written. The local variables that are used afterwards are collected in a
  record; \<^verbatim>\<open>is_ipv6\<close> and the two crypto suites are read (so an absent or empty
  value raises) and not used.
\<close>

record endpoints_request =
  req_session_id :: bytes
  req_address :: bytes
  req_target_video_port :: nat
  req_target_audio_port :: nat
  req_video_master_key :: bytes
  req_video_master_salt :: bytes
  req_audio_master_key :: bytes
  req_audio_master_salt :: bytes

definition set_endpoints_request :: "bytes \<Rightarrow> exn + endpoints_request" where
  "set_endpoints_request value =
     andthen (tlv_decode value) (\<lambda>objs.
     andthen (subscript objs SETUP_TYPES_SESSION_ID) (\<lambda>sid.
     andthen (subscript objs SETUP_TYPES_ADDRESS) (\<lambda>address_tlv.
     andthen (tlv_decode address_tlv) (\<lambda>address_info_objs.
     andthen (andthen (subscript address_info_objs SETUP_ADDR_INFO_ADDRESS_VER) first_byte)
       (\<lambda>is_ipv6.
     andthen (andthen (subscript address_info_objs SETUP_ADDR_INFO_ADDRESS) decode_utf8)
       (\<lambda>addr.
     andthen (andthen (subscript address_info_objs SETUP_ADDR_INFO_VIDEO_RTP_PORT) unpack_H)
       (\<lambda>target_video_port.
     andthen (andthen (subscript address_info_objs SETUP_ADDR_INFO_AUDIO_RTP_PORT) unpack_H)
       (\<lambda>target_audio_port.
     andthen (subscript objs SETUP_TYPES_VIDEO_SRTP_PARAM) (\<lambda>video_srtp_tlv.
     andthen (tlv_decode video_srtp_tlv) (\<lambda>video_info_objs.
     andthen (andthen (subscript video_info_objs SETUP_SRTP_PARAM_CRYPTO) first_byte)
       (\<lambda>video_crypto_suite.
     andthen (subscript video_info_objs SETUP_SRTP_PARAM_MASTER_KEY) (\<lambda>video_master_key.
     andthen (subscript video_info_objs SETUP_SRTP_PARAM_MASTER_SALT) (\<lambda>video_master_salt.
     andthen (subscript objs SETUP_TYPES_AUDIO_SRTP_PARAM) (\<lambda>audio_srtp_tlv.
     andthen (tlv_decode audio_srtp_tlv) (\<lambda>audio_info_objs.
     andthen (andthen (subscript audio_info_objs SETUP_SRTP_PARAM_CRYPTO) first_byte)
       (\<lambda>audio_crypto_suite.
     andthen (subscript audio_info_objs SETUP_SRTP_PARAM_MASTER_KEY) (\<lambda>audio_master_key.
     andthen (subscript audio_info_objs SETUP_SRTP_PARAM_MASTER_SALT) (\<lambda>audio_master_salt.
       Inr \<lparr>req_session_id = sid,
            req_address = addr,
            req_target_video_port = target_video_port,
            req_target_audio_port = target_audio_port,
            req_video_master_key = video_master_key,
            req_video_master_salt = video_master_salt,
            req_audio_master_key = audio_master_key,
            req_audio_master_salt = audio_master_salt\<rparr>))))))))))))))))))"

text \<open>
  Second half: the two SRTP blocks of the response, the two synchronization sources, the
  address block and the response; then the session record is stored under the session id
  (replacing one that is there) and the response is written to the characteristic.
\<close>

definition srtp_response :: "camera \<Rightarrow> bytes \<Rightarrow> bytes \<Rightarrow> bytes" where
  "srtp_response s master_key master_salt =
     (if support_srtp s
      then tlv_encode [(SETUP_SRTP_PARAM_CRYPTO, SRTP_CRYPTO_SUITES_AES_CM_128_HMAC_SHA1_80),
                       (SETUP_SRTP_PARAM_MASTER_KEY, master_key),
                       (SETUP_SRTP_PARAM_MASTER_SALT, master_salt)]
      else NO_SRTP)"

definition set_endpoints_response :: "camera \<Rightarrow> endpoints_request \<Rightarrow> exn + bytes" where
  "set_endpoints_response s r =
     (let video_srtp_tlv = srtp_response s (req_video_master_key r) (req_video_master_salt r);
          audio_srtp_tlv = srtp_response s (req_audio_master_key r) (req_audio_master_salt r);
          video_ssrc = [0x01] :: bytes;
          audio_ssrc = [0x01] :: bytes
      in
      andthen (pack_H (int (req_target_video_port r))) (\<lambda>video_rtp_port.
      andthen (pack_H (int (req_target_audio_port r))) (\<lambda>audio_rtp_port.
        let res_address_tlv =
              tlv_encode [(SETUP_ADDR_INFO_ADDRESS_VER, stream_address_isv6 s),
                          (SETUP_ADDR_INFO_ADDRESS, stream_address s),
                          (SETUP_ADDR_INFO_VIDEO_RTP_PORT, video_rtp_port),
                          (SETUP_ADDR_INFO_AUDIO_RTP_PORT, audio_rtp_port)]
        in Inr (tlv_encode
                  [(SETUP_TYPES_SESSION_ID, req_session_id r),
                   (SETUP_TYPES_STATUS, SETUP_STATUS_SUCCESS),
                   (SETUP_TYPES_ADDRESS, res_address_tlv),
                   (SETUP_TYPES_VIDEO_SRTP_PARAM, video_srtp_tlv),
                   (SETUP_TYPES_AUDIO_SRTP_PARAM, audio_srtp_tlv),
                   (SETUP_TYPES_VIDEO_SSRC, video_ssrc),
                   (SETUP_TYPES_AUDIO_SSRC, audio_ssrc)]))))"

definition new_session :: "endpoints_request \<Rightarrow> session_info" where
  "new_session r =
     \<lparr>address = req_address r,
      video_port = req_target_video_port r,
      video_srtp_key = req_video_master_key r,
      video_srtp_salt = req_video_master_salt r,
      video_ssrc = [0x01],
      audio_port = req_target_audio_port r,
      audio_srtp_key = req_audio_master_key r,
      audio_srtp_salt = req_audio_master_salt r,
      audio_ssrc = [0x01],
      process = None\<rparr>"

definition set_endpoints :: "camera \<Rightarrow> bytes \<Rightarrow> outcome" where
  "set_endpoints s value =
     (case andthen (set_endpoints_request value) (\<lambda>r.
           andthen (set_endpoints_response s r) (\<lambda>response_tlv. Inr (r, response_tlv))) of
        Inl e \<Rightarrow> Raised e s
      | Inr (r, response_tlv) \<Rightarrow>
          Returned (s\<lparr>sessions := (sessions s)(req_session_id r \<mapsto> new_session r),
                      char_SetupEndpoints := Some response_tlv,
                      set_value_calls := set_value_calls s @ [(SetupEndpoints, response_tlv)]\<rparr>))"

section \<open>The stream controller\<close>

text \<open>
  \<^verbatim>\<open>_start_stream(objs, reconfigure)\<close>. A local variable that no executed statement
  has assigned is unbound, and reading it raises UnboundLocalError. The video block binds
  \<^verbatim>\<open>width\<close>, \<^verbatim>\<open>height\<close> and \<^verbatim>\<open>fps\<close> only inside
  \<^verbatim>\<open>if video_attrs:\<close>, and \<^verbatim>\<open>video_ssrc\<close> and \<^verbatim>\<open>video_max_bitrate\<close> only
  inside \<^verbatim>\<open>if video_rtp_param:\<close>; \<open>None\<close> stands for unbound.
\<close>

record video_locals =
  l_width :: "nat option"
  l_height :: "nat option"
  l_fps :: "nat option"
  l_video_ssrc :: "nat option"
  l_video_max_bitrate :: "nat option"

definition local_var :: "'a option \<Rightarrow> exn + 'a" where
  "local_var v = (case v of None \<Rightarrow> Inl UnboundLocalError | Some x \<Rightarrow> Inr x)"

text \<open>\<^verbatim>\<open>x or d\<close> on integers: \<open>d\<close> when \<open>x\<close> is 0.\<close>

definition or_default :: "nat \<Rightarrow> nat \<Rightarrow> nat" where
  "or_default x d = (if x = 0 then d else x)"

text \<open>
  The block \<^verbatim>\<open>if video_tlv:\<close>. \<^verbatim>\<open>video_ssrc = 1 or struct.unpack(...)\<close> is 1
  without evaluating the right operand. \<^verbatim>\<open>struct.unpack\<close> applied to the
  \<^verbatim>\<open>None\<close> that \<^verbatim>\<open>get\<close> returns for an absent maximum bit rate is a TypeError.
\<close>

definition start_stream_video :: "tlv_dict \<Rightarrow> exn + video_locals" where
  "start_stream_video objs =
     if_truthy (objs SELECTED_STREAM_CONFIGURATION_TYPES_VIDEO)
       (\<lambda>video_tlv.
          andthen (tlv_decode video_tlv) (\<lambda>video_objs.
          andthen
            (if_truthy (video_objs VIDEO_TYPES_CODEC_PARAM)
               (\<lambda>video_codec_params.
                  andthen (tlv_decode video_codec_params) (\<lambda>video_codec_param_objs.
                  andthen (subscript video_codec_param_objs VIDEO_CODEC_PARAM_TYPES_PROFILE_ID)
                    (\<lambda>profile_id.
                  andthen (subscript video_codec_param_objs VIDEO_CODEC_PARAM_TYPES_LEVEL)
                    (\<lambda>level. Inr ()))))
               (Inr ())) (\<lambda>_.
          andthen
            (if_truthy (video_objs VIDEO_TYPES_ATTRIBUTES)
               (\<lambda>video_attrs.
                  andthen (tlv_decode video_attrs) (\<lambda>video_attr_objs.
                  andthen
                    (andthen (subscript video_attr_objs VIDEO_ATTRIBUTES_TYPES_IMAGE_WIDTH)
                       unpack_H) (\<lambda>width.
                  andthen
                    (andthen (subscript video_attr_objs VIDEO_ATTRIBUTES_TYPES_IMAGE_HEIGHT)
                       unpack_H) (\<lambda>height.
                  andthen
                    (andthen (subscript video_attr_objs VIDEO_ATTRIBUTES_TYPES_FRAME_RATE)
                       unpack_B) (\<lambda>fps.
                    Inr (Some width, Some height, Some fps))))))
               (Inr (None, None, None))) (\<lambda>(width, height, fps).
          andthen
            (if_truthy (video_objs VIDEO_TYPES_RTP_PARAM)
               (\<lambda>video_rtp_param.
                  andthen (tlv_decode video_rtp_param) (\<lambda>video_rtp_param_objs.
                  andthen
                    (case video_rtp_param_objs RTP_PARAM_TYPES_MAX_BIT_RATE of
                       None \<Rightarrow> Inl TypeError
                     | Some b \<Rightarrow> unpack_H b) (\<lambda>video_max_bitrate.
                    Inr (Some 1, Some video_max_bitrate))))
               (Inr (None, None))) (\<lambda>(video_ssrc, video_max_bitrate).
            Inr \<lparr>l_width = width, l_height = height, l_fps = fps,
                 l_video_ssrc = video_ssrc,
                 l_video_max_bitrate = video_max_bitrate\<rparr>)))))
       (Inr \<lparr>l_width = None, l_height = None, l_fps = None,
             l_video_ssrc = None, l_video_max_bitrate = None\<rparr>)"

text \<open>
  The block \<^verbatim>\<open>if audio_tlv:\<close> reads its values with subscripts, so each of them
  must be there; none of them is used afterwards.
\<close>

definition start_stream_audio :: "tlv_dict \<Rightarrow> exn + unit" where
  "start_stream_audio objs =
     if_truthy (objs SELECTED_STREAM_CONFIGURATION_TYPES_AUDIO)
       (\<lambda>audio_tlv.
          andthen (tlv_decode audio_tlv) (\<lambda>audio_objs.
          andthen (subscript audio_objs AUDIO_TYPES_CODEC) (\<lambda>audio_codec.
          andthen (andthen (subscript audio_objs AUDIO_TYPES_CODEC_PARAM) tlv_decode)
            (\<lambda>audio_codec_param_objs.
          andthen (andthen (subscript audio_objs AUDIO_TYPES_RTP_PARAM) tlv_decode)
            (\<lambda>audio_rtp_param_objs.
          andthen (subscript audio_objs AUDIO_TYPES_COMFORT_NOISE) (\<lambda>audio_comfort_noise.
          andthen (subscript audio_codec_param_objs AUDIO_CODEC_PARAM_TYPES_CHANNEL)
            (\<lambda>audio_channel.
          andthen (subscript audio_codec_param_objs AUDIO_CODEC_PARAM_TYPES_BIT_RATE)
            (\<lambda>audio_bitrate.
          andthen (subscript audio_codec_param_objs AUDIO_CODEC_PARAM_TYPES_SAMPLE_RATE)
            (\<lambda>audio_sample_rate.
          andthen (subscript audio_codec_param_objs AUDIO_CODEC_PARAM_TYPES_PACKET_TIME)
            (\<lambda>audio_packet_time.
          andthen (subscript audio_rtp_param_objs RTP_PARAM_TYPES_SYNCHRONIZATION_SOURCE)
            (\<lambda>audio_ssrc.
          andthen (subscript audio_rtp_param_objs RTP_PARAM_TYPES_PAYLOAD_TYPE)
            (\<lambda>audio_payload_type.
          andthen (subscript audio_rtp_param_objs RTP_PARAM_TYPES_MAX_BIT_RATE)
            (\<lambda>audio_max_bitrate.
          andthen (subscript audio_rtp_param_objs RTP_PARAM_TYPES_RTCP_SEND_INTERVAL)
            (\<lambda>audio_rtcp_interval.
          andthen (subscript audio_rtp_param_objs RTP_PARAM_TYPES_COMFORT_NOISE_PAYLOAD_TYPE)
            (\<lambda>audio_comfort_payload_type.
            Inr ())))))))))))))))
       (Inr ())"

text \<open>
  From the session block to the arguments of \<^verbatim>\<open>FFMPEG_CMD.format\<close>: the session
  id, the lookup in the store, the defaults and the clamp, then the keyword arguments in
  the order they are written.
\<close>

definition start_stream_kwargs ::
  "camera \<Rightarrow> tlv_dict \<Rightarrow> exn + bytes \<times> session_info \<times> format_kwargs" where
  "start_stream_kwargs s objs =
     andthen (start_stream_video objs) (\<lambda>l.
     andthen (start_stream_audio objs) (\<lambda>_.
     andthen
       (andthen (subscript objs SELECTED_STREAM_CONFIGURATION_TYPES_SESSION) tlv_decode)
       (\<lambda>session_objs.
     andthen (subscript session_objs 0x01) (\<lambda>sid.
     andthen (subscript (sessions s) sid) (\<lambda>info.
     andthen (local_var (l_width l)) (\<lambda>width.
     andthen (local_var (l_height l)) (\<lambda>height.
     andthen (local_var (l_video_max_bitrate l)) (\<lambda>video_max_bitrate.
     andthen (local_var (l_fps l)) (\<lambda>fps.
     andthen (local_var (l_video_ssrc l)) (\<lambda>vssrc.
       Inr (sid, info,
            \<lparr>kw_camera_source = ''0:0'',
             kw_address = address info,
             kw_video_port = video_port info,
             kw_video_srtp_key = video_srtp_key info @ video_srtp_salt info,
             kw_video_ssrc = vssrc,
             kw_fps = min fps 30,
             kw_width = or_default width 1280,
             kw_height = or_default height 720,
             kw_bitrate = or_default video_max_bitrate 300,
             kw_local_video_port = video_port info\<rparr>)))))))))))"

text \<open>
  The process is started, its handle is stored in the session record under
  \<^verbatim>\<open>'process'\<close> (whatever was stored there before), and the streaming status is set
  and published. The argument \<^verbatim>\<open>reconfigure\<close> is not used by the body.
\<close>

definition start_stream :: "camera \<Rightarrow> tlv_dict \<Rightarrow> bool \<Rightarrow> outcome" where
  "start_stream s objs reconfigure =
     (case start_stream_kwargs s objs of
        Inl e \<Rightarrow> Raised e s
      | Inr (sid, info, kw) \<Rightarrow>
          if \<not> popen_ok s then Raised OSError s
          else
            let cmd = FFMPEG_CMD_format kw;
                handle = length (processes s);
                s1 = s\<lparr>processes := processes s @ [cmd],
                       sessions := (sessions s)(sid \<mapsto> info\<lparr>process := Some handle\<rparr>)\<rparr>;
                s2 = s1\<lparr>streaming_status := STREAMING_STATUS_STREAMING\<rparr>
            in Returned
                 (s2\<lparr>char_StreamingStatus := get_streaimg_status s2,
                     set_value_calls :=
                       set_value_calls s2 @ [(StreamingStatus, get_streaimg_status s2)]\<rparr>))"

text \<open>
  \<^verbatim>\<open>_stop_stream(objs)\<close>: \<^verbatim>\<open>self.sessions.pop(session_id)\<close> raises KeyError for
  an id that is not in the store; a process handle is an object that counts as true, so
  \<^verbatim>\<open>kill()\<close> is called whenever the record has one.
\<close>

definition stop_stream :: "camera \<Rightarrow> tlv_dict \<Rightarrow> outcome" where
  "stop_stream s objs =
     (case andthen
             (andthen (subscript objs SELECTED_STREAM_CONFIGURATION_TYPES_SESSION) tlv_decode)
             (\<lambda>session_objs. subscript session_objs 0x01) of
        Inl e \<Rightarrow> Raised e s
      | Inr sid \<Rightarrow>
          (case sessions s sid of
             None \<Rightarrow> Raised KeyError s
           | Some info \<Rightarrow>
               let s1 = s\<lparr>sessions := (sessions s)(sid := None)\<rparr>;
                   s2 = (case process info of
                           None \<Rightarrow> s1
                         | Some ffmpeg_process \<Rightarrow> s1\<lparr>killed := killed s1 @ [ffmpeg_process]\<rparr>)
               in Returned (s2\<lparr>session_id := None\<rparr>)))"

text \<open>
  \<^verbatim>\<open>set_selected_stream_configuration(value)\<close>: the value is stored first; a request
  without a session block is logged and dropped; the request type is the first byte of
  the session block's entry 2.
\<close>

definition set_selected_stream_configuration :: "camera \<Rightarrow> bytes \<Rightarrow> outcome" where
  "set_selected_stream_configuration s value =
     (let s0 = s\<lparr>selected_config := Some value\<rparr> in
      case tlv_decode value of
        Inl e \<Rightarrow> Raised e s0
      | Inr objs \<Rightarrow>
          if objs SELECTED_STREAM_CONFIGURATION_TYPES_SESSION = None
          then Returned (s0\<lparr>logged := logged s0 @ [Error_bad_request]\<rparr>)
          else
            (case andthen
                    (andthen (subscript objs SELECTED_STREAM_CONFIGURATION_TYPES_SESSION)
                       tlv_decode)
                    (\<lambda>session. andthen (subscript session 0x02) first_byte) of
               Inl e \<Rightarrow> Raised e s0
             | Inr request_type \<Rightarrow>
                 if request_type = 1 then start_stream s0 objs False
                 else if request_type = 0 then stop_stream s0 objs
                 else if request_type = 4 then start_stream s0 objs True
                 else Returned
                        (s0\<lparr>logged := logged s0 @ [Error_unknown_request_type request_type]\<rparr>)))"

text \<open>
  \<^verbatim>\<open>_run()\<close>, three seconds after the accessory has been started: the streaming
  status is set to Streaming and published, whatever the sessions are.
\<close>

definition run :: "camera \<Rightarrow> camera" where
  "run s =
     (let s1 = s\<lparr>streaming_status := STREAMING_STATUS_STREAMING\<rparr>
      in s1\<lparr>char_StreamingStatus := get_streaimg_status s1,
            set_value_calls := set_value_calls s1 @ [(StreamingStatus, get_streaimg_status s1)]\<rparr>)"

section \<open>Notions used to state the properties\<close>

text \<open>The accessory a handler leaves behind, whether it returned or raised.\<close>

definition state_of :: "outcome \<Rightarrow> camera" where
  "state_of r = (case r of Returned s \<Rightarrow> s | Raised e s \<Rightarrow> s)"

text \<open>
  A setup-endpoints request lacks a required field when it decodes and has no session id,
  or one of its three blocks (address, video SRTP parameters, audio SRTP parameters) is
  absent, or such a block decodes and lacks one of the entries \<^verbatim>\<open>set_endpoints\<close>
  reads from it.
\<close>

definition block_lacks :: "bytes option \<Rightarrow> byte list \<Rightarrow> bool" where
  "block_lacks block keys =
     (case block of
        None \<Rightarrow> True
      | Some b \<Rightarrow>
          (case tlv_decode b of Inl e \<Rightarrow> False | Inr d \<Rightarrow> list_ex (\<lambda>k. d k = None) keys))"

definition missing_required_field :: "bytes \<Rightarrow> bool" where
  "missing_required_field value =
     (case tlv_decode value of
        Inl e \<Rightarrow> False
      | Inr objs \<Rightarrow>
          objs SETUP_TYPES_SESSION_ID = None
          \<or> block_lacks (objs SETUP_TYPES_ADDRESS)
               [SETUP_ADDR_INFO_ADDRESS_VER, SETUP_ADDR_INFO_ADDRESS,
                SETUP_ADDR_INFO_VIDEO_RTP_PORT, SETUP_ADDR_INFO_AUDIO_RTP_PORT]
          \<or> block_lacks (objs SETUP_TYPES_VIDEO_SRTP_PARAM)
               [SETUP_SRTP_PARAM_CRYPTO, SETUP_SRTP_PARAM_MASTER_KEY,
                SETUP_SRTP_PARAM_MASTER_SALT]
          \<or> block_lacks (objs SETUP_TYPES_AUDIO_SRTP_PARAM)
               [SETUP_SRTP_PARAM_CRYPTO, SETUP_SRTP_PARAM_MASTER_KEY,
                SETUP_SRTP_PARAM_MASTER_SALT])"

section \<open>A worked example\<close>

text \<open>
  An accessory at 10.0.0.2 and a controller at 1.2.3.4 that sets up the session
  \<^verbatim>\<open>AA BB\<close> (video port 50000, audio port 50001), starts it at 1280x720 with a
  requested frame rate of 60, a maximum bit rate of 300 and a synchronization source of its
  own, reconfigures it and stops it. The states are written out, so that each step can be
  followed by hand.
\<close>

definition example_camera :: "bool \<Rightarrow> camera" where
  "example_camera srtp =
     new_camera srtp [0x31, 0x30, 0x2E, 0x30, 0x2E, 0x30, 0x2E, 0x32] False True"

definition setup_req :: bytes where
  "setup_req =
     [0x01, 0x02, 0xAA, 0xBB,
      0x03, 0x14, 0x01, 0x01, 0x00, 0x02, 0x07, 0x31, 0x2E, 0x32, 0x2E, 0x33, 0x2E, 0x34,
                  0x03, 0x02, 0x50, 0xC3, 0x04, 0x02, 0x51, 0xC3,
      0x04, 0x0B, 0x01, 0x01, 0x00, 0x02, 0x02, 0x11, 0x22, 0x03, 0x02, 0x33, 0x44,
      0x05, 0x0B, 0x01, 0x01, 0x00, 0x02, 0x02, 0x55, 0x66, 0x03, 0x02, 0x77, 0x88]"

text \<open>The same request without its audio SRTP block.\<close>

definition setup_req_no_audio :: bytes where
  "setup_req_no_audio =
     [0x01, 0x02, 0xAA, 0xBB,
      0x03, 0x14, 0x01, 0x01, 0x00, 0x02, 0x07, 0x31, 0x2E, 0x32, 0x2E, 0x33, 0x2E, 0x34,
                  0x03, 0x02, 0x50, 0xC3, 0x04, 0x02, 0x51, 0xC3,
      0x04, 0x0B, 0x01, 0x01, 0x00, 0x02, 0x02, 0x11, 0x22, 0x03, 0x02, 0x33, 0x44]"

definition example_request :: endpoints_request where
  "example_request =
     \<lparr>req_session_id = [0xAA, 0xBB],
      req_address = [0x31, 0x2E, 0x32, 0x2E, 0x33, 0x2E, 0x34],
      req_target_video_port = 50000,
      req_target_audio_port = 50001,
      req_video_master_key = [0x11, 0x22],
      req_video_master_salt = [0x33, 0x44],
      req_audio_master_key = [0x55, 0x66],
      req_audio_master_salt = [0x77, 0x88]\<rparr>"

definition example_session :: session_info where
  "example_session =
     \<lparr>address = [0x31, 0x2E, 0x32, 0x2E, 0x33, 0x2E, 0x34],
      video_port = 50000,
      video_srtp_key = [0x11, 0x22],
      video_srtp_salt = [0x33, 0x44],
      video_ssrc = [0x01],
      audio_port = 50001,
      audio_srtp_key = [0x55, 0x66],
      audio_srtp_salt = [0x77, 0x88],
      audio_ssrc = [0x01],
      process = None\<rparr>"

definition setup_response_secure :: bytes where
  "setup_response_secure =
     [0x01, 0x02, 0xAA, 0xBB, 0x02, 0x01, 0x00,
      0x03, 0x15, 0x01, 0x01, 0x00, 0x02, 0x08, 0x31, 0x30, 0x2E, 0x30, 0x2E, 0x30, 0x2E, 0x32,
                  0x03, 0x02, 0x50, 0xC3, 0x04, 0x02, 0x51, 0xC3,
      0x04, 0x0B, 0x01, 0x01, 0x00, 0x02, 0x02, 0x11, 0x22, 0x03, 0x02, 0x33, 0x44,
      0x05, 0x0B, 0x01, 0x01, 0x00, 0x02, 0x02, 0x55, 0x66, 0x03, 0x02, 0x77, 0x88,
      0x06, 0x01, 0x01, 0x07, 0x01, 0x01]"

definition configured_camera :: camera where
  "configured_camera =
     (example_camera True)
       \<lparr>sessions := [[0xAA, 0xBB] \<mapsto> example_session],
        char_SetupEndpoints := Some setup_response_secure,
        set_value_calls := [(SetupEndpoints, setup_response_secure)]\<rparr>"

text \<open>
  The selected-configuration requests: a session block with the id and the request type,
  and for start and reconfigure a video block with the attributes (1280, 720, 60) and the
  RTP parameters (payload type 99, synchronization source \<^verbatim>\<open>0x12345678\<close>, maximum
  bit rate 300).
\<close>

definition start_req :: bytes where
  "start_req =
     [0x01, 0x07, 0x01, 0x02, 0xAA, 0xBB, 0x02, 0x01, 0x01,
      0x02, 0x1C, 0x03, 0x0B, 0x01, 0x02, 0x00, 0x05, 0x02, 0x02, 0xD0, 0x02, 0x03, 0x01, 0x3C,
                  0x04, 0x0D, 0x01, 0x01, 0x63, 0x02, 0x04, 0x78, 0x56, 0x34, 0x12,
                              0x03, 0x02, 0x2C, 0x01]"

definition reconfigure_req :: bytes where
  "reconfigure_req =
     [0x01, 0x07, 0x01, 0x02, 0xAA, 0xBB, 0x02, 0x01, 0x04,
      0x02, 0x1C, 0x03, 0x0B, 0x01, 0x02, 0x00, 0x05, 0x02, 0x02, 0xD0, 0x02, 0x03, 0x01, 0x3C,
                  0x04, 0x0D, 0x01, 0x01, 0x63, 0x02, 0x04, 0x78, 0x56, 0x34, 0x12,
                              0x03, 0x02, 0x2C, 0x01]"

definition stop_req :: bytes where
  "stop_req = [0x01, 0x07, 0x01, 0x02, 0xAA, 0xBB, 0x02, 0x01, 0x00]"

definition unknown_req :: bytes where
  "unknown_req = [0x01, 0x07, 0x01, 0x02, 0xAA, 0xBB, 0x02, 0x01, 0x09]"

text \<open>A start request with no video block, and one whose video block has no RTP parameters.\<close>

definition start_req_no_video :: bytes where
  "start_req_no_video = [0x01, 0x07, 0x01, 0x02, 0xAA, 0xBB, 0x02, 0x01, 0x01]"

definition start_req_no_bitrate :: bytes where
  "start_req_no_bitrate =
     [0x01, 0x07, 0x01, 0x02, 0xAA, 0xBB, 0x02, 0x01, 0x01,
      0x02, 0x0D, 0x03, 0x0B, 0x01, 0x02, 0x00, 0x05, 0x02, 0x02, 0xD0, 0x02, 0x03, 0x01, 0x3C]"

text \<open>
  A start request whose video block holds RTP parameters with a payload type and no
  maximum bit rate (\<^verbatim>\<open>struct.unpack\<close> is given \<^verbatim>\<open>None\<close>), and a
  reconfigure request with the video block of the example and an audio block that
  announces an entry of five bytes and ends there (\<^verbatim>\<open>tlv.decode\<close> of the
  block fails).
\<close>

definition start_req_bad_video :: bytes where
  "start_req_bad_video =
     [0x01, 0x07, 0x01, 0x02, 0xAA, 0xBB, 0x02, 0x01, 0x01,
      0x02, 0x05, 0x04, 0x03, 0x01, 0x01, 0x63]"

definition reconfigure_req_bad_audio :: bytes where
  "reconfigure_req_bad_audio =
     [0x01, 0x07, 0x01, 0x02, 0xAA, 0xBB, 0x02, 0x01, 0x04,
      0x02, 0x1C, 0x03, 0x0B, 0x01, 0x02, 0x00, 0x05, 0x02, 0x02, 0xD0, 0x02, 0x03, 0x01, 0x3C,
                  0x04, 0x0D, 0x01, 0x01, 0x63, 0x02, 0x04, 0x78, 0x56, 0x34, 0x12,
                              0x03, 0x02, 0x2C, 0x01,
      0x03, 0x02, 0x01, 0x05]"

definition bad_video_objs :: tlv_dict where
  "bad_video_objs =
     [0x01 \<mapsto> [0x01, 0x02, 0xAA, 0xBB, 0x02, 0x01, 0x01],
      0x02 \<mapsto> [0x04, 0x03, 0x01, 0x01, 0x63]]"

definition bad_audio_objs :: tlv_dict where
  "bad_audio_objs =
     [0x01 \<mapsto> [0x01, 0x02, 0xAA, 0xBB, 0x02, 0x01, 0x04],
      0x02 \<mapsto> [0x03, 0x0B, 0x01, 0x02, 0x00, 0x05, 0x02, 0x02, 0xD0, 0x02, 0x03, 0x01, 0x3C,
                0x04, 0x0D, 0x01, 0x01, 0x63, 0x02, 0x04, 0x78, 0x56, 0x34, 0x12,
                            0x03, 0x02, 0x2C, 0x01],
      0x03 \<mapsto> [0x01, 0x05]]"

text \<open>The dictionary a start (1), reconfigure (4) or other request of this shape decodes to.\<close>

definition example_objs :: "byte \<Rightarrow> tlv_dict" where
  "example_objs k =
     [0x01 \<mapsto> [0x01, 0x02, 0xAA, 0xBB, 0x02, 0x01, k],
      0x02 \<mapsto> [0x03, 0x0B, 0x01, 0x02, 0x00, 0x05, 0x02, 0x02, 0xD0, 0x02, 0x03, 0x01, 0x3C,
                0x04, 0x0D, 0x01, 0x01, 0x63, 0x02, 0x04, 0x78, 0x56, 0x34, 0x12,
                            0x03, 0x02, 0x2C, 0x01]]"

definition session_objs_only :: "byte \<Rightarrow> tlv_dict" where
  "session_objs_only k = [0x01 \<mapsto> [0x01, 0x02, 0xAA, 0xBB, 0x02, 0x01, k]]"

definition example_kwargs :: format_kwargs where
  "example_kwargs =
     \<lparr>kw_camera_source = ''0:0'',
      kw_address = [0x31, 0x2E, 0x32, 0x2E, 0x33, 0x2E, 0x34],
      kw_video_port = 50000,
      kw_video_srtp_key = [0x11, 0x22, 0x33, 0x44],
      kw_video_ssrc = 1,
      kw_fps = 30,
      kw_width = 1280,
      kw_height = 720,
      kw_bitrate = 300,
      kw_local_video_port = 50000\<rparr>"

definition streaming_camera :: camera where
  "streaming_camera =
     configured_camera
       \<lparr>selected_config := Some start_req,
        processes := [FFMPEG_CMD_format example_kwargs],
        sessions := [[0xAA, 0xBB] \<mapsto> example_session\<lparr>process := Some 0\<rparr>],
        streaming_status := [0x01],
        char_StreamingStatus := [0x01, 0x01, 0x01],
        set_value_calls := [(SetupEndpoints, setup_response_secure),
                            (StreamingStatus, [0x01, 0x01, 0x01])]\<rparr>"

definition reconfigured_camera :: camera where
  "reconfigured_camera =
     streaming_camera
       \<lparr>selected_config := Some reconfigure_req,
        processes := [FFMPEG_CMD_format example_kwargs, FFMPEG_CMD_format example_kwargs],
        sessions := [[0xAA, 0xBB] \<mapsto> example_session\<lparr>process := Some 1\<rparr>],
        set_value_calls := [(SetupEndpoints, setup_response_secure),
                            (StreamingStatus, [0x01, 0x01, 0x01]),
                            (StreamingStatus, [0x01, 0x01, 0x01])]\<rparr>"

definition stopped_camera :: camera where
  "stopped_camera =
     streaming_camera
       \<lparr>selected_config := Some stop_req,
        sessions := Map.empty,
        killed := [0],
        session_id := None\<rparr>"

section \<open>Basic facts\<close>

lemma andthen_Inl: "andthen (Inl e) f = Inl e"
  by (simp add: andthen_def)

lemma andthen_Inr: "andthen (Inr x) f = f x"
  by (simp add: andthen_def)

lemma andthen_eq_Inr: "andthen r f = Inr y \<longleftrightarrow> (\<exists>x. r = Inr x \<and> f x = Inr y)"
  by (cases r) (simp_all add: andthen_def)

lemma subscript_eq_Inr: "subscript d k = Inr v \<longleftrightarrow> d k = Some v"
  by (simp add: subscript_def split: option.splits)

lemma subscript_Some: "d k = Some v \<Longrightarrow> subscript d k = Inr v"
  by (simp add: subscript_def)

lemma subscript_None: "d k = None \<Longrightarrow> subscript d k = Inl KeyError"
  by (simp add: subscript_def)

text \<open>
  The codec's round trip: a list of pairs with pairwise different types decodes to the
  dictionary of its pairs, whatever the lengths of the values. The equation of
  \<open>tlv_fragments\<close> is unfolded by hand, one chunk at a time.
\<close>

declare tlv_fragments.simps [simp del]

lemma unat_length_byte: "n \<le> 255 \<Longrightarrow> unat (of_nat n :: byte) = n"
  by (simp add: unat_of_nat)

lemma decode_fragments:
  "tlv_decode_from (m(t \<mapsto> acc)) (Some (t, 255)) (tlv_fragments t w @ rest)
   = tlv_decode_from (m(t \<mapsto> acc @ w)) (Some (t, length w mod 255)) rest"
proof (induction t w arbitrary: acc rule: tlv_fragments.induct)
  case (1 t v)
  show ?case
  proof (cases "length v < 255")
    case True
    then show ?thesis
      by (subst tlv_fragments.simps) (simp add: unat_length_byte)
  next
    case False
    have "tlv_decode_from (m(t \<mapsto> acc)) (Some (t, 255)) (tlv_fragments t v @ rest)
        = tlv_decode_from (m(t \<mapsto> acc @ take 255 v)) (Some (t, 255))
            (tlv_fragments t (drop 255 v) @ rest)"
      using False by (subst tlv_fragments.simps) (simp add: min_def)
    also have "\<dots> = tlv_decode_from (m(t \<mapsto> (acc @ take 255 v) @ drop 255 v))
            (Some (t, length (drop 255 v) mod 255)) rest"
      using False by (rule "1.IH")
    also have "length (drop 255 v) mod 255 = length v mod 255"
      using False by (simp add: le_mod_geq)
    finally show ?thesis by simp
  qed
qed

lemma decode_pair:
  assumes "prev \<noteq> Some (t, 255)"
  shows "\<exists>n. tlv_decode_from m prev (tlv_encode_pair (t, v) @ rest)
             = tlv_decode_from (m(t \<mapsto> v)) (Some (t, n)) rest"
proof (cases "length v \<le> 255")
  case True
  with assms show ?thesis
    by (auto simp: tlv_encode_pair_def unat_length_byte)
next
  case False
  have "tlv_decode_from m prev (tlv_encode_pair (t, v) @ rest)
      = tlv_decode_from (m(t \<mapsto> take 255 v)) (Some (t, 255))
          (tlv_fragments t (drop 255 v) @ rest)"
    using False assms
    by (simp add: tlv_encode_pair_def) (subst tlv_fragments.simps, simp add: min_def)
  also have "\<dots> = tlv_decode_from (m(t \<mapsto> take 255 v @ drop 255 v))
          (Some (t, length (drop 255 v) mod 255)) rest"
    by (rule decode_fragments)
  finally show ?thesis by auto
qed

lemma decode_encode_from:
  "distinct (map fst ps) \<Longrightarrow> (case prev of None \<Rightarrow> True | Some (t, n) \<Rightarrow> t \<notin> fst ` set ps)
   \<Longrightarrow> tlv_decode_from m prev (tlv_encode ps) = Inr (m ++ map_of ps)"
proof (induction ps arbitrary: m prev)
  case Nil
  then show ?case by (simp add: tlv_encode_def)
next
  case (Cons p ps)
  obtain t v where p: "p = (t, v)" by (cases p)
  have enc: "tlv_encode (p # ps) = tlv_encode_pair (t, v) @ tlv_encode ps"
    by (simp add: tlv_encode_def p)
  have "prev \<noteq> Some (t, 255)"
    using Cons.prems(2) p by (auto split: option.splits)
  then obtain n where
    "tlv_decode_from m prev (tlv_encode_pair (t, v) @ tlv_encode ps)
     = tlv_decode_from (m(t \<mapsto> v)) (Some (t, n)) (tlv_encode ps)"
    using decode_pair by blast
  also have "\<dots> = Inr (m(t \<mapsto> v) ++ map_of ps)"
    using Cons.prems(1) p by (intro Cons.IH) auto
  also have "m(t \<mapsto> v) ++ map_of ps = m ++ map_of (p # ps)"
    using Cons.prems(1) p by (simp add: map_add_upd_left dom_map_of_conv_image_fst)
  finally show ?case
    unfolding enc .
qed

lemma tlv_decode_encode:
  "distinct (map fst ps) \<Longrightarrow> tlv_decode (tlv_encode ps) = Inr (map_of ps)"
  by (simp add: tlv_decode_def decode_encode_from)

lemma first_byte_Cons: "first_byte (k # ks) = Inr (unat k)"
  by (simp add: first_byte_def)

lemma unat_byte_eq_iff:
  "unat (k :: byte) = 0 \<longleftrightarrow> k = 0"
  "unat k = Suc 0 \<longleftrightarrow> k = 1"
  "unat k = 4 \<longleftrightarrow> k = 4"
  by (simp_all add: word_unat_eq_iff)

lemma start_stream_Raised: "start_stream s objs r = Raised e s' \<Longrightarrow> s' = s"
  by (auto simp: start_stream_def Let_def split: sum.splits if_splits prod.splits)

lemma stop_stream_Raised: "stop_stream s objs = Raised e s' \<Longrightarrow> s' = s"
  by (auto simp: stop_stream_def Let_def split: sum.splits if_splits option.splits)

lemma start_stream_unknown_session:
  assumes "objs 0x01 = Some session_tlv"
    and "tlv_decode session_tlv = Inr session"
    and "session 0x01 = Some sid"
    and "sessions s sid = None"
  shows "\<exists>e. start_stream s objs r = Raised e s"
proof -
  have "\<exists>e. start_stream_kwargs s objs = Inl e"
    using assms
    by (cases "start_stream_video objs"; cases "start_stream_audio objs")
      (simp_all add: start_stream_kwargs_def andthen_Inl andthen_Inr subscript_Some subscript_None)
  then show ?thesis
    by (auto simp: start_stream_def)
qed

lemma start_stream_unknown_session_KeyError:
  assumes "objs 0x01 = Some session_tlv"
    and "tlv_decode session_tlv = Inr session"
    and "session 0x01 = Some sid"
    and "sessions s sid = None"
    and "start_stream_video objs = Inr l"
    and "start_stream_audio objs = Inr ()"
  shows "start_stream s objs r = Raised KeyError s"
  using assms
  by (simp add: start_stream_def start_stream_kwargs_def andthen_Inr andthen_Inl
      subscript_Some subscript_None)

lemma start_stream_video_fails:
  assumes "start_stream_video objs = Inl e"
  shows "start_stream s objs r = Raised e s"
  using assms by (simp add: start_stream_def start_stream_kwargs_def andthen_Inl)

lemma start_stream_audio_fails:
  assumes "start_stream_video objs = Inr l"
    and "start_stream_audio objs = Inl e"
  shows "start_stream s objs r = Raised e s"
  using assms by (simp add: start_stream_def start_stream_kwargs_def andthen_Inl andthen_Inr)

lemma stop_stream_unknown_session:
  assumes "objs 0x01 = Some session_tlv"
    and "tlv_decode session_tlv = Inr session"
    and "session 0x01 = Some sid"
    and "sessions s sid = None"
  shows "stop_stream s objs = Raised KeyError s"
  using assms by (simp add: stop_stream_def andthen_Inr subscript_Some)

lemma set_endpoints_request_fields:
  assumes "set_endpoints_request value = Inr r"
  shows "\<not> missing_required_field value"
  using assms
  by (auto simp: set_endpoints_request_def andthen_eq_Inr subscript_eq_Inr
      missing_required_field_def block_lacks_def)

lemma set_endpoints_Raised: "set_endpoints s value = Raised e s' \<Longrightarrow> s' = s"
  by (auto simp: set_endpoints_def split: sum.splits prod.splits)

lemma unpack_H_bound: "unpack_H b = Inr n \<Longrightarrow> n < 65536"
proof -
  assume a: "unpack_H b = Inr n"
  then obtain lo hi where "b = [lo, hi]" and n: "n = unat lo + 256 * unat hi"
    by (auto simp: unpack_H_def split: list.splits)
  have "unat lo < 256" "unat hi < 256"
    using unsigned_less [of lo, where ?'a = nat] unsigned_less [of hi, where ?'a = nat] by simp_all
  with n show ?thesis by simp
qed

lemma pack_H_port: "n < 65536 \<Longrightarrow> \<exists>b. pack_H (int n) = Inr b"
  by (simp add: pack_H_def)

lemma set_endpoints_request_ports:
  assumes "set_endpoints_request value = Inr r"
  shows "req_target_video_port r < 65536 \<and> req_target_audio_port r < 65536"
  using assms
  by (auto simp: set_endpoints_request_def andthen_eq_Inr dest: unpack_H_bound)

lemma set_endpoints_returns:
  assumes "set_endpoints_request value = Inr r"
  shows "\<exists>s'. set_endpoints s value = Returned s'"
proof -
  from assms have "req_target_video_port r < 65536" "req_target_audio_port r < 65536"
    using set_endpoints_request_ports by blast+
  then obtain pv pa where "pack_H (int (req_target_video_port r)) = Inr pv"
    "pack_H (int (req_target_audio_port r)) = Inr pa"
    using pack_H_port by blast
  with assms show ?thesis
    by (simp add: set_endpoints_def set_endpoints_response_def andthen_Inr Let_def)
qed

lemma set_endpoints_Returned:
  assumes "set_endpoints s value = Returned s'"
  shows "\<exists>r resp. set_endpoints_request value = Inr r
           \<and> set_endpoints_response s r = Inr resp
           \<and> s' = s\<lparr>sessions := (sessions s)(req_session_id r \<mapsto> new_session r),
                     char_SetupEndpoints := Some resp,
                     set_value_calls := set_value_calls s @ [(SetupEndpoints, resp)]\<rparr>"
  using assms
  by (auto simp: set_endpoints_def andthen_def split: sum.splits prod.splits)

lemma set_endpoints_request_srtp:
  assumes "set_endpoints_request value = Inr r"
  shows "\<exists>request vb ab video audio.
           tlv_decode value = Inr request
         \<and> request 0x04 = Some vb \<and> tlv_decode vb = Inr video
         \<and> video 0x02 = Some (req_video_master_key r)
         \<and> video 0x03 = Some (req_video_master_salt r)
         \<and> request 0x05 = Some ab \<and> tlv_decode ab = Inr audio
         \<and> audio 0x02 = Some (req_audio_master_key r)
         \<and> audio 0x03 = Some (req_audio_master_salt r)"
  using assms
  by (auto simp: set_endpoints_request_def andthen_eq_Inr subscript_eq_Inr)

lemma set_endpoints_response_decode:
  assumes "set_endpoints_response s r = Inr resp"
  shows "\<exists>response. tlv_decode resp = Inr response
         \<and> response 0x01 = Some (req_session_id r)
         \<and> response 0x02 = Some [0x00]
         \<and> response 0x04 = Some (srtp_response s (req_video_master_key r) (req_video_master_salt r))
         \<and> response 0x05 = Some (srtp_response s (req_audio_master_key r) (req_audio_master_salt r))
         \<and> response 0x06 = Some [0x01]
         \<and> response 0x07 = Some [0x01]"
  using assms
  by (auto simp: set_endpoints_response_def andthen_eq_Inr Let_def tlv_decode_encode)

lemma srtp_block_decode:
  "tlv_decode (tlv_encode [(0x01, [0x00]), (0x02, k), (0x03, salt)])
   = Inr [0x01 \<mapsto> [0x00], 0x02 \<mapsto> k, 0x03 \<mapsto> salt]"
  by (auto simp: tlv_decode_encode fun_eq_iff)

lemma start_stream_video_ssrc:
  assumes "start_stream_video objs = Inr l"
  shows "l_video_ssrc l = None \<or> l_video_ssrc l = Some 1"
  using assms
  by (auto simp: start_stream_video_def if_truthy_def andthen_eq_Inr
      split: option.splits if_splits)

lemma start_stream_kwargs_ssrc:
  assumes "start_stream_kwargs s objs = Inr (sid, info, kw)"
  shows "kw_video_ssrc kw = 1"
proof -
  from assms obtain l where l: "start_stream_video objs = Inr l"
    and v: "local_var (l_video_ssrc l) = Inr (kw_video_ssrc kw)"
    by (auto simp: start_stream_kwargs_def andthen_eq_Inr)
  from l have "l_video_ssrc l = None \<or> l_video_ssrc l = Some 1"
    by (rule start_stream_video_ssrc)
  with v show ?thesis
    by (auto simp: local_var_def)
qed

lemma start_stream_Returned:
  assumes "start_stream s objs reconfigure = Returned s'"
  shows "\<exists>sid info kw. start_stream_kwargs s objs = Inr (sid, info, kw)
           \<and> popen_ok s
           \<and> s' = s\<lparr>processes := processes s @ [FFMPEG_CMD_format kw],
                     sessions := (sessions s)(sid \<mapsto> info\<lparr>process := Some (length (processes s))\<rparr>),
                     streaming_status := [0x01],
                     char_StreamingStatus := tlv_encode [(0x01, [0x01])],
                     set_value_calls :=
                       set_value_calls s @ [(StreamingStatus, tlv_encode [(0x01, [0x01])])]\<rparr>"
  using assms
  by (auto simp: start_stream_def Let_def get_streaimg_status_def
      split: sum.splits prod.splits if_splits)

lemma stop_stream_frame:
  "streaming_status (state_of (stop_stream s objs)) = streaming_status s
   \<and> char_StreamingStatus (state_of (stop_stream s objs)) = char_StreamingStatus s
   \<and> char_SetupEndpoints (state_of (stop_stream s objs)) = char_SetupEndpoints s
   \<and> set_value_calls (state_of (stop_stream s objs)) = set_value_calls s
   \<and> processes (state_of (stop_stream s objs)) = processes s
   \<and> logged (state_of (stop_stream s objs)) = logged s
   \<and> selected_config (state_of (stop_stream s objs)) = selected_config s
   \<and> setup_response (state_of (stop_stream s objs)) = setup_response s
   \<and> support_srtp (state_of (stop_stream s objs)) = support_srtp s
   \<and> stream_address (state_of (stop_stream s objs)) = stream_address s
   \<and> stream_address_isv6 (state_of (stop_stream s objs)) = stream_address_isv6 s
   \<and> popen_ok (state_of (stop_stream s objs)) = popen_ok s"
  by (simp add: stop_stream_def state_of_def Let_def split: sum.splits option.splits)


lemma stop_stream_Returned:
  assumes "stop_stream s objs = Returned s'"
  shows "\<exists>session_tlv session_objs sid info.
           objs SELECTED_STREAM_CONFIGURATION_TYPES_SESSION = Some session_tlv
         \<and> tlv_decode session_tlv = Inr session_objs
         \<and> session_objs 0x01 = Some sid
         \<and> sessions s sid = Some info
         \<and> sessions s' = (sessions s)(sid := None)
         \<and> killed s' = killed s @ (case process info of None \<Rightarrow> [] | Some p \<Rightarrow> [p])
         \<and> session_id s' = None"
proof -
  from assms obtain sid where
    sid: "andthen (andthen (subscript objs 0x01) tlv_decode)
            (\<lambda>session_objs. subscript session_objs 0x01) = Inr sid"
    by (auto simp: stop_stream_def split: sum.splits)
  then obtain session_tlv session_objs where read:
    "objs 0x01 = Some session_tlv" "tlv_decode session_tlv = Inr session_objs"
    "session_objs 0x01 = Some sid"
    by (auto simp: andthen_eq_Inr subscript_eq_Inr)
  from assms sid obtain info where info: "sessions s sid = Some info"
    by (auto simp: stop_stream_def split: option.splits)
  from assms sid info have
    "sessions s' = (sessions s)(sid := None)"
    "killed s' = killed s @ (case process info of None \<Rightarrow> [] | Some p \<Rightarrow> [p])"
    "session_id s' = None"
    by (auto simp: stop_stream_def Let_def split: option.splits)
  with read info show ?thesis by blast
qed

lemma stop_stream_known_session:
  assumes "objs SELECTED_STREAM_CONFIGURATION_TYPES_SESSION = Some session_tlv"
    and "tlv_decode session_tlv = Inr session_objs"
    and "session_objs 0x01 = Some sid"
    and "sessions s sid = Some info"
  shows "stop_stream s objs
         = Returned (s\<lparr>sessions := (sessions s)(sid := None),
                       killed := killed s @ (case process info of None \<Rightarrow> [] | Some p \<Rightarrow> [p]),
                       session_id := None\<rparr>)"
  using assms
  by (cases "process info")
     (simp_all add: stop_stream_def subscript_Some andthen_Inr Let_def)

lemma selected_dispatch:
  assumes "tlv_decode value = Inr objs"
    and "objs 0x01 = Some session_tlv"
    and "tlv_decode session_tlv = Inr session"
    and "session 0x02 = Some (k # ks)"
  shows "set_selected_stream_configuration s value =
      (let s0 = s\<lparr>selected_config := Some value\<rparr> in
       if k = 1 then start_stream s0 objs False
       else if k = 0 then stop_stream s0 objs
       else if k = 4 then start_stream s0 objs True
       else Returned (s0\<lparr>logged := logged s0 @ [Error_unknown_request_type (unat k)]\<rparr>))"
  using assms
  by (simp add: set_selected_stream_configuration_def subscript_Some andthen_Inr
      first_byte_Cons Let_def unat_byte_eq_iff)

lemma stop_request_status:
  assumes "tlv_decode value = Inr objs"
    and "objs 0x01 = Some session_tlv"
    and "tlv_decode session_tlv = Inr session"
    and "session 0x02 = Some (0 # ks)"
  shows "streaming_status (state_of (set_selected_stream_configuration s value))
           = streaming_status s
       \<and> char_StreamingStatus (state_of (set_selected_stream_configuration s value))
           = char_StreamingStatus s
       \<and> set_value_calls (state_of (set_selected_stream_configuration s value))
           = set_value_calls s"
proof -
  have "set_selected_stream_configuration s value
        = stop_stream (s\<lparr>selected_config := Some value\<rparr>) objs"
    using selected_dispatch [OF assms, of s] by (simp add: Let_def)
  then show ?thesis
    using stop_stream_frame [of "s\<lparr>selected_config := Some value\<rparr>" objs] by simp
qed

lemma stop_request_known_session:
  assumes "tlv_decode value = Inr objs"
    and "objs 0x01 = Some session_tlv"
    and "tlv_decode session_tlv = Inr session"
    and "session 0x02 = Some (0 # ks)"
    and "session 0x01 = Some sid"
    and "sessions s sid = Some info"
  shows "set_selected_stream_configuration s value
         = Returned (s\<lparr>selected_config := Some value,
                       sessions := (sessions s)(sid := None),
                       killed := killed s @ (case process info of None \<Rightarrow> [] | Some p \<Rightarrow> [p]),
                       session_id := None\<rparr>)"
proof -
  let ?s0 = "s\<lparr>selected_config := Some value\<rparr>"
  have "set_selected_stream_configuration s value = stop_stream ?s0 objs"
    using selected_dispatch [OF assms(1-4), of s] by (simp add: Let_def)
  moreover have known: "sessions ?s0 sid = Some info"
    using assms(6) by simp
  have "stop_stream ?s0 objs
        = Returned (?s0\<lparr>sessions := (sessions ?s0)(sid := None),
                        killed := killed ?s0 @ (case process info of None \<Rightarrow> [] | Some p \<Rightarrow> [p]),
                        session_id := None\<rparr>)"
    using assms(2,3,5) known by (rule stop_stream_known_session)
  ultimately show ?thesis by simp
qed

lemma start_request_status:
  assumes "tlv_decode value = Inr objs"
    and "objs 0x01 = Some session_tlv"
    and "tlv_decode session_tlv = Inr session"
    and "session 0x02 = Some (k # ks)"
    and "k = 1 \<or> k = 4"
    and "set_selected_stream_configuration s value = Returned s1"
  shows "streaming_status s1 = [0x01] \<and> char_StreamingStatus s1 = tlv_encode [(0x01, [0x01])]"
proof -
  have "\<exists>b. start_stream (s\<lparr>selected_config := Some value\<rparr>) objs b = Returned s1"
    using selected_dispatch [OF assms(1-4), of s] assms(5,6) by (auto simp: Let_def)
  then show ?thesis
    by (auto dest!: start_stream_Returned)
qed

text \<open>
  What the capability encoders and the start of a stream do in general: the flag of the
  audio encoder depends on the codec kinds alone, every number of a resolution takes two
  bytes, a start that gets as far as the command has found every video field in the
  request, so that a default only ever replaces a 0, and a start or reconfigure never asks
  a process to stop.
\<close>

lemma start_stream_kills_nothing:
  "killed (state_of (start_stream s objs reconfigure)) = killed s"
  by (simp add: start_stream_def state_of_def Let_def split: sum.splits prod.splits)

lemma has_supported_codec_iff:
  "fst (foldl audio_codec_step (flag, configs, lg) cs)
   \<longleftrightarrow> flag \<or> (\<exists>p \<in> set cs. codec_type p = ''OPUS'' \<or> codec_type p = ''AAC-eld'')"
proof (induction cs arbitrary: flag configs lg)
  case Nil
  show ?case by simp
next
  case (Cons p cs)
  obtain flag' configs' lg' where
    step: "audio_codec_step (flag, configs, lg) p = (flag', configs', lg')"
    by (cases "audio_codec_step (flag, configs, lg) p") auto
  have "flag' \<longleftrightarrow> flag \<or> codec_type p = ''OPUS'' \<or> codec_type p = ''AAC-eld''"
    using step by (auto simp: audio_codec_step_def Let_def split: if_splits)
  then show ?case
    using Cons.IH [of flag' configs' lg'] step by auto
qed

lemma resolution_tlv_layout:
  assumes "resolution_tlv (w, h, f) = Inr b"
  shows "b = [0x01, 0x02, word_of_int (w mod 256), word_of_int (w div 256),
              0x02, 0x02, word_of_int (h mod 256), word_of_int (h div 256),
              0x03, 0x02, word_of_int (f mod 256), word_of_int (f div 256)]"
  using assms
  by (auto simp: resolution_tlv_def pack_H_def andthen_def tlv_encode_def tlv_encode_pair_def
      split: if_splits)

lemma start_stream_kwargs_effective:
  assumes "start_stream_kwargs s objs = Inr (sid, info, kw)"
  shows "\<exists>l. start_stream_video objs = Inr l
         \<and> map_option (\<lambda>width. if width = 0 then 1280 else width) (l_width l)
             = Some (kw_width kw)
         \<and> map_option (\<lambda>height. if height = 0 then 720 else height) (l_height l)
             = Some (kw_height kw)
         \<and> map_option (\<lambda>bitrate. if bitrate = 0 then 300 else bitrate) (l_video_max_bitrate l)
             = Some (kw_bitrate kw)
         \<and> map_option (\<lambda>fps. min fps 30) (l_fps l) = Some (kw_fps kw)"
proof -
  from assms obtain l width height video_max_bitrate fps where
    l: "start_stream_video objs = Inr l"
    and vars: "local_var (l_width l) = Inr width" "local_var (l_height l) = Inr height"
      "local_var (l_video_max_bitrate l) = Inr video_max_bitrate"
      "local_var (l_fps l) = Inr fps"
    and kw: "kw_width kw = or_default width 1280" "kw_height kw = or_default height 720"
      "kw_bitrate kw = or_default video_max_bitrate 300" "kw_fps kw = min fps 30"
    by (auto simp: start_stream_kwargs_def andthen_eq_Inr)
  from vars have "l_width l = Some width" "l_height l = Some height"
    "l_video_max_bitrate l = Some video_max_bitrate" "l_fps l = Some fps"
    by (simp_all add: local_var_def split: option.splits)
  with l kw show ?thesis
    by (simp add: or_default_def)
qed

section \<open>The worked example, step by step\<close>

lemmas eval_defs = tlv_decode_def andthen_def subscript_def first_byte_def decode_utf8_def
  unpack_H_def unpack_B_def pack_H_def if_truthy_def local_var_def or_default_def
  tlv_encode_def tlv_encode_pair_def cont_def

lemma setup_req_decoded:
  "tlv_decode setup_req =
     Inr [0x01 \<mapsto> [0xAA, 0xBB],
          0x03 \<mapsto> [0x01, 0x01, 0x00, 0x02, 0x07, 0x31, 0x2E, 0x32, 0x2E, 0x33, 0x2E, 0x34,
                    0x03, 0x02, 0x50, 0xC3, 0x04, 0x02, 0x51, 0xC3],
          0x04 \<mapsto> [0x01, 0x01, 0x00, 0x02, 0x02, 0x11, 0x22, 0x03, 0x02, 0x33, 0x44],
          0x05 \<mapsto> [0x01, 0x01, 0x00, 0x02, 0x02, 0x55, 0x66, 0x03, 0x02, 0x77, 0x88]]"
  by (simp add: setup_req_def tlv_decode_def)

lemma setup_req_parsed: "set_endpoints_request setup_req = Inr example_request"
  by (simp add: set_endpoints_request_def setup_req_def example_request_def eval_defs)

lemma setup_example:
  "set_endpoints (example_camera True) setup_req = Returned configured_camera"
  by (simp add: set_endpoints_def setup_req_parsed set_endpoints_response_def srtp_response_def
      new_session_def example_camera_def new_camera_def configured_camera_def example_session_def
      example_request_def setup_response_secure_def eval_defs)

lemma session_block_decoded:
  "tlv_decode [0x01, 0x02, 0xAA, 0xBB, 0x02, 0x01, k] = Inr [0x01 \<mapsto> [0xAA, 0xBB], 0x02 \<mapsto> [k]]"
  by (simp add: tlv_decode_def)

lemma session_block_type: "[0x01 \<mapsto> [0xAA, 0xBB], 0x02 \<mapsto> [k]] 0x02 = Some (k # [])"
  by simp

lemma start_req_objs: "tlv_decode start_req = Inr (example_objs 0x01)"
  by (simp add: start_req_def tlv_decode_def example_objs_def)

lemma reconfigure_req_objs: "tlv_decode reconfigure_req = Inr (example_objs 0x04)"
  by (simp add: reconfigure_req_def tlv_decode_def example_objs_def)

lemma stop_req_objs: "tlv_decode stop_req = Inr (session_objs_only 0x00)"
  by (simp add: stop_req_def tlv_decode_def session_objs_only_def)

lemma unknown_req_objs: "tlv_decode unknown_req = Inr (session_objs_only 0x09)"
  by (simp add: unknown_req_def tlv_decode_def session_objs_only_def)

lemma start_req_no_video_objs: "tlv_decode start_req_no_video = Inr (session_objs_only 0x01)"
  by (simp add: start_req_no_video_def tlv_decode_def session_objs_only_def)

lemma example_objs_session:
  "example_objs k 0x01 = Some [0x01, 0x02, 0xAA, 0xBB, 0x02, 0x01, k]"
  by (simp add: example_objs_def)

lemma session_objs_only_session:
  "session_objs_only k 0x01 = Some [0x01, 0x02, 0xAA, 0xBB, 0x02, 0x01, k]"
  by (simp add: session_objs_only_def)

lemma example_video_locals:
  "start_stream_video (example_objs k)
   = Inr \<lparr>l_width = Some 1280, l_height = Some 720, l_fps = Some 60,
          l_video_ssrc = Some 1, l_video_max_bitrate = Some 300\<rparr>"
  by (simp add: start_stream_video_def example_objs_def eval_defs)

lemma example_audio: "start_stream_audio (example_objs k) = Inr ()"
  by (simp add: start_stream_audio_def example_objs_def if_truthy_def)

lemma start_req_bad_video_objs: "tlv_decode start_req_bad_video = Inr bad_video_objs"
  by (simp add: start_req_bad_video_def tlv_decode_def bad_video_objs_def)

lemma reconfigure_req_bad_audio_objs:
  "tlv_decode reconfigure_req_bad_audio = Inr bad_audio_objs"
  by (simp add: reconfigure_req_bad_audio_def tlv_decode_def bad_audio_objs_def)

lemma bad_video_objs_session:
  "bad_video_objs 0x01 = Some [0x01, 0x02, 0xAA, 0xBB, 0x02, 0x01, 0x01]"
  by (simp add: bad_video_objs_def)

lemma bad_audio_objs_session:
  "bad_audio_objs 0x01 = Some [0x01, 0x02, 0xAA, 0xBB, 0x02, 0x01, 0x04]"
  by (simp add: bad_audio_objs_def)

lemma bad_video_locals: "start_stream_video bad_video_objs = Inl TypeError"
  by (simp add: start_stream_video_def bad_video_objs_def eval_defs)

lemma bad_audio_locals:
  "start_stream_video bad_audio_objs
   = Inr \<lparr>l_width = Some 1280, l_height = Some 720, l_fps = Some 60,
          l_video_ssrc = Some 1, l_video_max_bitrate = Some 300\<rparr>"
  by (simp add: start_stream_video_def bad_audio_objs_def eval_defs)

lemma bad_audio_audio: "start_stream_audio bad_audio_objs = Inl MalformedTlv"
  by (simp add: start_stream_audio_def bad_audio_objs_def eval_defs)

lemma example_start_kwargs:
  assumes "sessions s [0xAA, 0xBB] = Some (example_session\<lparr>process := p\<rparr>)"
  shows "start_stream_kwargs s (example_objs k)
         = Inr ([0xAA, 0xBB], example_session\<lparr>process := p\<rparr>, example_kwargs)"
  using assms
  by (simp add: start_stream_kwargs_def example_video_locals example_audio andthen_Inr
      subscript_Some session_block_decoded local_var_def or_default_def example_kwargs_def
      example_session_def example_objs_session)

lemma example_dispatch:
  assumes "tlv_decode value = Inr (example_objs k)"
  shows "set_selected_stream_configuration s value =
      (let s0 = s\<lparr>selected_config := Some value\<rparr> in
       if k = 1 then start_stream s0 (example_objs k) False
       else if k = 0 then stop_stream s0 (example_objs k)
       else if k = 4 then start_stream s0 (example_objs k) True
       else Returned (s0\<lparr>logged := logged s0 @ [Error_unknown_request_type (unat k)]\<rparr>))"
  by (rule selected_dispatch [OF assms example_objs_session session_block_decoded]) simp

lemma session_only_dispatch:
  assumes "tlv_decode value = Inr (session_objs_only k)"
  shows "set_selected_stream_configuration s value =
      (let s0 = s\<lparr>selected_config := Some value\<rparr> in
       if k = 1 then start_stream s0 (session_objs_only k) False
       else if k = 0 then stop_stream s0 (session_objs_only k)
       else if k = 4 then start_stream s0 (session_objs_only k) True
       else Returned (s0\<lparr>logged := logged s0 @ [Error_unknown_request_type (unat k)]\<rparr>))"
  by (rule selected_dispatch [OF assms session_objs_only_session session_block_decoded]) simp

lemma configured_session:
  "sessions configured_camera [0xAA, 0xBB] = Some (example_session\<lparr>process := None\<rparr>)"
  by (simp add: configured_camera_def example_session_def)

lemma streaming_session:
  "sessions streaming_camera [0xAA, 0xBB] = Some (example_session\<lparr>process := Some 0\<rparr>)"
  by (simp add: streaming_camera_def)

lemma stopped_session: "sessions stopped_camera [0xAA, 0xBB] = None"
  by (simp add: stopped_camera_def)

lemma start_example:
  "set_selected_stream_configuration configured_camera start_req = Returned streaming_camera"
proof -
  let ?s0 = "configured_camera\<lparr>selected_config := Some start_req\<rparr>"
  have "sessions ?s0 [0xAA, 0xBB] = Some (example_session\<lparr>process := None\<rparr>)"
    using configured_session by simp
  then have "start_stream_kwargs ?s0 (example_objs 1)
      = Inr ([0xAA, 0xBB], example_session\<lparr>process := None\<rparr>, example_kwargs)"
    by (rule example_start_kwargs)
  then have "start_stream ?s0 (example_objs 1) False = Returned streaming_camera"
    by (simp add: start_stream_def streaming_camera_def configured_camera_def
        example_camera_def new_camera_def get_streaimg_status_def tlv_encode_def
        tlv_encode_pair_def)
  then show ?thesis
    by (simp add: example_dispatch [OF start_req_objs])
qed

lemma reconfigure_example:
  "set_selected_stream_configuration streaming_camera reconfigure_req
   = Returned reconfigured_camera"
proof -
  let ?s0 = "streaming_camera\<lparr>selected_config := Some reconfigure_req\<rparr>"
  have "sessions ?s0 [0xAA, 0xBB] = Some (example_session\<lparr>process := Some 0\<rparr>)"
    using streaming_session by simp
  then have "start_stream_kwargs ?s0 (example_objs 4)
      = Inr ([0xAA, 0xBB], example_session\<lparr>process := Some 0\<rparr>, example_kwargs)"
    by (rule example_start_kwargs)
  then have "start_stream ?s0 (example_objs 4) True = Returned reconfigured_camera"
    by (simp add: start_stream_def reconfigured_camera_def streaming_camera_def
        configured_camera_def example_camera_def new_camera_def get_streaimg_status_def
        tlv_encode_def tlv_encode_pair_def)
  then show ?thesis
    by (simp add: example_dispatch [OF reconfigure_req_objs])
qed

lemma stop_example:
  "set_selected_stream_configuration streaming_camera stop_req = Returned stopped_camera"
proof -
  let ?s0 = "streaming_camera\<lparr>selected_config := Some stop_req\<rparr>"
  have "stop_stream ?s0 (session_objs_only 0) = Returned stopped_camera"
    by (simp add: stop_stream_def session_objs_only_session subscript_Some andthen_Inr
        session_block_decoded streaming_camera_def stopped_camera_def configured_camera_def
        example_camera_def new_camera_def Let_def)
  then show ?thesis
    by (simp add: session_only_dispatch [OF stop_req_objs])
qed

lemma stopped_camera_selected:
  "stopped_camera\<lparr>selected_config := Some stop_req\<rparr> = stopped_camera"
  by (simp add: stopped_camera_def)

lemma second_stop_example:
  "set_selected_stream_configuration stopped_camera stop_req = Raised KeyError stopped_camera"
proof -
  have "stop_stream stopped_camera (session_objs_only 0) = Raised KeyError stopped_camera"
    using session_objs_only_session session_block_decoded _ stopped_session
    by (rule stop_stream_unknown_session) simp
  then show ?thesis
    by (simp add: session_only_dispatch [OF stop_req_objs] stopped_camera_selected)
qed

section \<open>The claims\<close>

subsection \<open>C1: requests for a session that is not in the store\<close>

text \<open>
  C1, as stated: a start, reconfigure or stop request whose session id is not in the store
  is reported as a client-protocol error and no exception escapes the handler. The code
  has no handler for the failed lookup. In the example, the first stop removes the
  session \<^verbatim>\<open>AA BB\<close>; the same stop sent again makes
  \<^verbatim>\<open>self.sessions.pop(session_id)\<close> raise KeyError, and the exception leaves
  \<^verbatim>\<open>set_selected_stream_configuration\<close>.
\<close>

theorem repeated_stop_raises_KeyError:
  "set_selected_stream_configuration streaming_camera stop_req = Returned stopped_camera
   \<and> sessions stopped_camera [0xAA, 0xBB] = None
   \<and> set_selected_stream_configuration stopped_camera stop_req
       = Raised KeyError stopped_camera"
  using stop_example stopped_session second_stop_example by simp

text \<open>
  C1, amended: for every start (1), reconfigure (4) or stop (0) request whose session id
  is not in the store, the handler does not return: an exception leaves it. It is the
  KeyError of the failed lookup for a stop, and for a start or reconfigure whose video and
  audio blocks were read without an exception. A start or reconfigure reads the video
  block, then the audio block, and only then looks the session up: when reading the video
  block raises, that exception is the one that leaves the handler, and when the video block
  is read and reading the audio block raises, it is that one.
  The accessory is as before but for \<^verbatim>\<open>selected_config\<close>, which holds the
  request: the store, the processes and the streaming status are untouched.
\<close>

theorem unknown_session_raises:
  assumes "tlv_decode value = Inr objs"
    and "objs SELECTED_STREAM_CONFIGURATION_TYPES_SESSION = Some session_tlv"
    and "tlv_decode session_tlv = Inr session"
    and "session 0x02 = Some (k # ks)"
    and "k = 0 \<or> k = 1 \<or> k = 4"
    and "session 0x01 = Some sid"
    and "sessions s sid = None"
  shows "(\<exists>e. set_selected_stream_configuration s value
                = Raised e (s\<lparr>selected_config := Some value\<rparr>))
         \<and> (k = 0 \<longrightarrow> set_selected_stream_configuration s value
                = Raised KeyError (s\<lparr>selected_config := Some value\<rparr>))
         \<and> ((\<exists>l. start_stream_video objs = Inr l) \<and> start_stream_audio objs = Inr ()
               \<longrightarrow> set_selected_stream_configuration s value
                = Raised KeyError (s\<lparr>selected_config := Some value\<rparr>))
         \<and> (\<forall>e. (k = 1 \<or> k = 4) \<and> start_stream_video objs = Inl e
               \<longrightarrow> set_selected_stream_configuration s value
                = Raised e (s\<lparr>selected_config := Some value\<rparr>))
         \<and> (\<forall>e. (k = 1 \<or> k = 4) \<and> (\<exists>l. start_stream_video objs = Inr l)
                   \<and> start_stream_audio objs = Inl e
               \<longrightarrow> set_selected_stream_configuration s value
                = Raised e (s\<lparr>selected_config := Some value\<rparr>))"
proof -
  let ?s0 = "s\<lparr>selected_config := Some value\<rparr>"
  have unknown: "sessions ?s0 sid = None"
    using assms(7) by simp
  have dispatch: "set_selected_stream_configuration s value =
      (if k = 1 then start_stream ?s0 objs False
       else if k = 0 then stop_stream ?s0 objs
       else start_stream ?s0 objs True)"
    using assms(1-5)
    by (auto simp: set_selected_stream_configuration_def subscript_Some andthen_Inr
        first_byte_Cons Let_def)
  have stop: "stop_stream ?s0 objs = Raised KeyError ?s0"
    using assms(2,3,6) unknown by (rule stop_stream_unknown_session)
  have start: "\<exists>e. start_stream ?s0 objs r = Raised e ?s0" for r
    using assms(2,3,6) unknown by (rule start_stream_unknown_session)
  have start_parsed: "start_stream ?s0 objs r = Raised KeyError ?s0"
    if "start_stream_video objs = Inr l" "start_stream_audio objs = Inr ()" for r l
    using assms(2,3,6) unknown that by (rule start_stream_unknown_session_KeyError)
  have video_fails: "start_stream ?s0 objs r = Raised e ?s0"
    if "start_stream_video objs = Inl e" for r e
    using that by (rule start_stream_video_fails)
  have audio_fails: "start_stream ?s0 objs r = Raised e ?s0"
    if "start_stream_video objs = Inr l" "start_stream_audio objs = Inl e" for r e l
    using that by (rule start_stream_audio_fails)
  have raises: "\<exists>e. set_selected_stream_configuration s value = Raised e ?s0"
    using dispatch stop start by auto
  have stop_KeyError: "k = 0 \<longrightarrow> set_selected_stream_configuration s value = Raised KeyError ?s0"
    using dispatch stop by simp
  have start_KeyError: "(\<exists>l. start_stream_video objs = Inr l) \<and> start_stream_audio objs = Inr ()
      \<longrightarrow> set_selected_stream_configuration s value = Raised KeyError ?s0"
    using dispatch stop start_parsed by auto
  have video: "\<forall>e. (k = 1 \<or> k = 4) \<and> start_stream_video objs = Inl e
      \<longrightarrow> set_selected_stream_configuration s value = Raised e ?s0"
    using dispatch video_fails by auto
  have audio: "\<forall>e. (k = 1 \<or> k = 4) \<and> (\<exists>l. start_stream_video objs = Inr l)
        \<and> start_stream_audio objs = Inl e
      \<longrightarrow> set_selected_stream_configuration s value = Raised e ?s0"
    using dispatch audio_fails by auto
  show ?thesis
    using raises stop_KeyError start_KeyError video audio by blast
qed

theorem unknown_session_raises_witness:
  "tlv_decode stop_req = Inr (session_objs_only 0x00)
   \<and> session_objs_only 0x00 0x01 = Some [0x01, 0x02, 0xAA, 0xBB, 0x02, 0x01, 0x00]
   \<and> tlv_decode [0x01, 0x02, 0xAA, 0xBB, 0x02, 0x01, 0x00]
       = Inr [0x01 \<mapsto> [0xAA, 0xBB], 0x02 \<mapsto> [0x00]]
   \<and> sessions (example_camera True) [0xAA, 0xBB] = None
   \<and> set_selected_stream_configuration (example_camera True) stop_req
       = Raised KeyError ((example_camera True)\<lparr>selected_config := Some stop_req\<rparr>)
   \<and> set_selected_stream_configuration (example_camera True) start_req
       = Raised KeyError ((example_camera True)\<lparr>selected_config := Some start_req\<rparr>)
   \<and> start_stream_video bad_video_objs = Inl TypeError
   \<and> set_selected_stream_configuration (example_camera True) start_req_bad_video
       = Raised TypeError
           ((example_camera True)\<lparr>selected_config := Some start_req_bad_video\<rparr>)
   \<and> start_stream_video bad_audio_objs
       = Inr \<lparr>l_width = Some 1280, l_height = Some 720, l_fps = Some 60,
              l_video_ssrc = Some 1, l_video_max_bitrate = Some 300\<rparr>
   \<and> start_stream_audio bad_audio_objs = Inl MalformedTlv
   \<and> set_selected_stream_configuration (example_camera True) reconfigure_req_bad_audio
       = Raised MalformedTlv
           ((example_camera True)\<lparr>selected_config := Some reconfigure_req_bad_audio\<rparr>)"
proof -
  have absent: "sessions (example_camera True) [0xAA, 0xBB] = None"
    by (simp add: example_camera_def new_camera_def)
  have stop: "set_selected_stream_configuration (example_camera True) stop_req
       = Raised KeyError ((example_camera True)\<lparr>selected_config := Some stop_req\<rparr>)"
    using unknown_session_raises
      [OF stop_req_objs session_objs_only_session session_block_decoded _ _ _ absent,
       of 0 "[]"]
    by simp
  have start: "set_selected_stream_configuration (example_camera True) start_req
         = Raised KeyError ((example_camera True)\<lparr>selected_config := Some start_req\<rparr>)"
    using unknown_session_raises
      [OF start_req_objs example_objs_session session_block_decoded _ _ _ absent,
       of 1 "[]"]
      example_video_locals [of 1] example_audio [of 1]
    by simp
  have bad_video: "set_selected_stream_configuration (example_camera True) start_req_bad_video
         = Raised TypeError
             ((example_camera True)\<lparr>selected_config := Some start_req_bad_video\<rparr>)"
    using unknown_session_raises
      [OF start_req_bad_video_objs bad_video_objs_session session_block_decoded _ _ _ absent,
       of 1 "[]"]
      bad_video_locals
    by simp
  have bad_audio: "set_selected_stream_configuration (example_camera True)
           reconfigure_req_bad_audio
         = Raised MalformedTlv
             ((example_camera True)\<lparr>selected_config := Some reconfigure_req_bad_audio\<rparr>)"
    using unknown_session_raises
      [OF reconfigure_req_bad_audio_objs bad_audio_objs_session session_block_decoded _ _ _
          absent,
       of 4 "[]"]
      bad_audio_locals bad_audio_audio
    by simp
  show ?thesis
    using stop_req_objs session_objs_only_session session_block_decoded absent stop start
      bad_video_locals bad_video bad_audio_locals bad_audio_audio bad_audio
    by simp
qed

subsection \<open>C2: reconfiguring a running stream\<close>

text \<open>
  C2. \<^verbatim>\<open>_start_stream\<close> does not look at its argument \<^verbatim>\<open>reconfigure\<close>: a
  reconfigure request starts a second process and overwrites the handle in the session
  record, and \<^verbatim>\<open>kill()\<close> is called on nothing. In the example, after setup, start
  and reconfigure two processes have been started, none has been asked to stop, and the
  record holds the handle of the second.
\<close>

theorem reconfigure_leaves_old_process_running:
  "set_endpoints (example_camera True) setup_req = Returned configured_camera
   \<and> set_selected_stream_configuration configured_camera start_req = Returned streaming_camera
   \<and> set_selected_stream_configuration streaming_camera reconfigure_req
       = Returned reconfigured_camera
   \<and> map_option process (sessions streaming_camera [0xAA, 0xBB]) = Some (Some 0)
   \<and> map_option process (sessions reconfigured_camera [0xAA, 0xBB]) = Some (Some 1)
   \<and> length (processes reconfigured_camera) = 2
   \<and> killed reconfigured_camera = []"
  using setup_example start_example reconfigure_example
  by (simp add: reconfigured_camera_def streaming_camera_def configured_camera_def
      example_camera_def new_camera_def)

subsection \<open>C3: setup requests that lack a required field\<close>

text \<open>
  C3, as stated: when a required field is missing, no exception passes the boundary of
  \<^verbatim>\<open>set_endpoints\<close>. The fields are read with subscripts and nothing catches the
  KeyError: for the example request without its audio SRTP block, the exception leaves the
  handler (and the accessory is untouched).
\<close>

theorem setup_without_audio_block_raises_KeyError:
  "missing_required_field setup_req_no_audio
   \<and> set_endpoints (example_camera True) setup_req_no_audio
       = Raised KeyError (example_camera True)"
  by (simp add: missing_required_field_def block_lacks_def set_endpoints_def
      set_endpoints_request_def setup_req_no_audio_def eval_defs)

text \<open>
  C3, amended: for every setup-endpoints request that lacks a required field, an exception
  leaves \<^verbatim>\<open>set_endpoints\<close> (KeyError when it is the session id that is missing); the
  handler fails closed: the accessory is exactly as before, so no session record is created
  and no response is written.
\<close>

theorem missing_field_raises:
  assumes "missing_required_field value"
  shows "(\<exists>e. set_endpoints s value = Raised e s)
         \<and> (\<forall>objs. tlv_decode value = Inr objs \<and> objs SETUP_TYPES_SESSION_ID = None
               \<longrightarrow> set_endpoints s value = Raised KeyError s)"
proof -
  have "\<exists>e. set_endpoints_request value = Inl e"
    using assms set_endpoints_request_fields by (cases "set_endpoints_request value") auto
  then have "\<exists>e. set_endpoints s value = Raised e s"
    by (auto simp: set_endpoints_def andthen_Inl)
  moreover have "set_endpoints s value = Raised KeyError s"
    if "tlv_decode value = Inr objs" "objs 0x01 = None" for objs
    using that by (simp add: set_endpoints_def set_endpoints_request_def andthen_Inl andthen_Inr
        subscript_None)
  ultimately show ?thesis by blast
qed

theorem missing_field_raises_witness:
  "missing_required_field []
   \<and> tlv_decode [] = Inr Map.empty
   \<and> set_endpoints (example_camera False) [] = Raised KeyError (example_camera False)
   \<and> missing_required_field setup_req_no_audio
   \<and> (\<exists>e. set_endpoints configured_camera setup_req_no_audio = Raised e configured_camera)"
proof -
  have empty: "missing_required_field []"
    by (simp add: missing_required_field_def tlv_decode_def)
  have no_audio: "missing_required_field setup_req_no_audio"
    by (simp add: missing_required_field_def block_lacks_def setup_req_no_audio_def
        tlv_decode_def)
  have d: "tlv_decode [] = Inr Map.empty"
    by (simp add: tlv_decode_def)
  have "set_endpoints (example_camera False) [] = Raised KeyError (example_camera False)"
    using missing_field_raises [OF empty, of "example_camera False"] d by simp
  moreover have "\<exists>e. set_endpoints configured_camera setup_req_no_audio
      = Raised e configured_camera"
    using missing_field_raises [OF no_audio, of configured_camera] by simp
  ultimately show ?thesis
    using empty no_audio d by simp
qed

subsection \<open>C4: the audio fallback\<close>

text \<open>
  C4. The fallback entry is chosen by the flag \<^verbatim>\<open>has_supported_codec\<close>, not by
  the number of entries emitted. For the descriptor with the single codec OPUS at 44 kHz
  the kind is recognised, the rate is not: the encoder logs the rate warning and returns
  the comfort-noise flag alone, an advertisement with no audio codec entry.
\<close>

theorem audio_config_recognised_codec_bad_rate_is_empty:
  "get_supported_audio_stream_config
     \<lparr>codecs = [\<lparr>codec_type = ''OPUS'', samplerate = 44\<rparr>], comfort_noise = None\<rparr>
   = ([0x02, 0x01, 0x00], [Warning_unsupported_sample_rate 44])"
  by (simp add: get_supported_audio_stream_config_def audio_codec_step_def tlv_encode_def
      tlv_encode_pair_def)

subsection \<open>C5: defaults for absent video fields\<close>

text \<open>
  C5. \<^verbatim>\<open>width = width or 1280\<close> (and the same for the height and the bit rate)
  replaces a value of 0; it cannot replace an absent one, because the variables are bound
  only inside \<^verbatim>\<open>if video_attrs:\<close> and \<^verbatim>\<open>if video_rtp_param:\<close>. For the
  configured session of the example, a start request with no video block, and one whose
  video block has attributes but no RTP parameters, both end in UnboundLocalError; no
  process is started.
\<close>

theorem start_without_video_fields_raises:
  "set_selected_stream_configuration configured_camera start_req_no_video
     = Raised UnboundLocalError (configured_camera\<lparr>selected_config := Some start_req_no_video\<rparr>)
   \<and> set_selected_stream_configuration configured_camera start_req_no_bitrate
     = Raised UnboundLocalError (configured_camera\<lparr>selected_config := Some start_req_no_bitrate\<rparr>)"
proof -
  have a: "set_selected_stream_configuration configured_camera start_req_no_video
     = Raised UnboundLocalError (configured_camera\<lparr>selected_config := Some start_req_no_video\<rparr>)"
    by (simp add: session_only_dispatch [OF start_req_no_video_objs] start_stream_def
        start_stream_kwargs_def start_stream_video_def start_stream_audio_def
        session_objs_only_def configured_camera_def eval_defs)
  have b: "set_selected_stream_configuration configured_camera start_req_no_bitrate
     = Raised UnboundLocalError (configured_camera\<lparr>selected_config := Some start_req_no_bitrate\<rparr>)"
    by (simp add: set_selected_stream_configuration_def start_req_no_bitrate_def start_stream_def
        start_stream_kwargs_def start_stream_video_def start_stream_audio_def
        configured_camera_def eval_defs)
  show ?thesis
    using a b by simp
qed

subsection \<open>C6: the SRTP blocks of the setup response\<close>

text \<open>
  C6. Whenever \<^verbatim>\<open>set_endpoints\<close> returns, the response it wrote decodes, and its
  entries 4 (video) and 5 (audio) are: with secure transport, the encoding of the suite id
  0 (AES-CM-128/HMAC-SHA1-80), the master key and the master salt that the request carries
  in its own entries 4 and 5, and decoding that block gives these three values back byte
  for byte; without secure transport, the constant \<open>NO_SRTP\<close> for both.
\<close>

theorem srtp_blocks_echo_or_sentinel:
  assumes "set_endpoints s value = Returned s'"
  shows "\<exists>request vb ab video audio vkey vsalt akey asalt resp response.
           tlv_decode value = Inr request
         \<and> request SETUP_TYPES_VIDEO_SRTP_PARAM = Some vb \<and> tlv_decode vb = Inr video
         \<and> video SETUP_SRTP_PARAM_MASTER_KEY = Some vkey
         \<and> video SETUP_SRTP_PARAM_MASTER_SALT = Some vsalt
         \<and> request SETUP_TYPES_AUDIO_SRTP_PARAM = Some ab \<and> tlv_decode ab = Inr audio
         \<and> audio SETUP_SRTP_PARAM_MASTER_KEY = Some akey
         \<and> audio SETUP_SRTP_PARAM_MASTER_SALT = Some asalt
         \<and> char_SetupEndpoints s' = Some resp \<and> tlv_decode resp = Inr response
         \<and> (support_srtp s \<longrightarrow>
               (\<exists>vblock ablock.
                  response SETUP_TYPES_VIDEO_SRTP_PARAM = Some vblock
                \<and> response SETUP_TYPES_AUDIO_SRTP_PARAM = Some ablock
                \<and> vblock = tlv_encode
                     [(SETUP_SRTP_PARAM_CRYPTO, SRTP_CRYPTO_SUITES_AES_CM_128_HMAC_SHA1_80),
                      (SETUP_SRTP_PARAM_MASTER_KEY, vkey),
                      (SETUP_SRTP_PARAM_MASTER_SALT, vsalt)]
                \<and> ablock = tlv_encode
                     [(SETUP_SRTP_PARAM_CRYPTO, SRTP_CRYPTO_SUITES_AES_CM_128_HMAC_SHA1_80),
                      (SETUP_SRTP_PARAM_MASTER_KEY, akey),
                      (SETUP_SRTP_PARAM_MASTER_SALT, asalt)]
                \<and> tlv_decode vblock =
                     Inr [SETUP_SRTP_PARAM_CRYPTO \<mapsto> SRTP_CRYPTO_SUITES_AES_CM_128_HMAC_SHA1_80,
                          SETUP_SRTP_PARAM_MASTER_KEY \<mapsto> vkey,
                          SETUP_SRTP_PARAM_MASTER_SALT \<mapsto> vsalt]
                \<and> tlv_decode ablock =
                     Inr [SETUP_SRTP_PARAM_CRYPTO \<mapsto> SRTP_CRYPTO_SUITES_AES_CM_128_HMAC_SHA1_80,
                          SETUP_SRTP_PARAM_MASTER_KEY \<mapsto> akey,
                          SETUP_SRTP_PARAM_MASTER_SALT \<mapsto> asalt]))
         \<and> (\<not> support_srtp s \<longrightarrow>
               response SETUP_TYPES_VIDEO_SRTP_PARAM = Some NO_SRTP
             \<and> response SETUP_TYPES_AUDIO_SRTP_PARAM = Some NO_SRTP)"
proof -
  from assms obtain r resp where r: "set_endpoints_request value = Inr r"
    and resp: "set_endpoints_response s r = Inr resp"
    and s': "s' = s\<lparr>sessions := (sessions s)(req_session_id r \<mapsto> new_session r),
                     char_SetupEndpoints := Some resp,
                     set_value_calls := set_value_calls s @ [(SetupEndpoints, resp)]\<rparr>"
    using set_endpoints_Returned by blast
  from r obtain request vb ab video audio where req:
    "tlv_decode value = Inr request"
    "request 0x04 = Some vb" "tlv_decode vb = Inr video"
    "video 0x02 = Some (req_video_master_key r)" "video 0x03 = Some (req_video_master_salt r)"
    "request 0x05 = Some ab" "tlv_decode ab = Inr audio"
    "audio 0x02 = Some (req_audio_master_key r)" "audio 0x03 = Some (req_audio_master_salt r)"
    using set_endpoints_request_srtp by blast
  from resp obtain response where response:
    "tlv_decode resp = Inr response"
    "response 0x04 = Some (srtp_response s (req_video_master_key r) (req_video_master_salt r))"
    "response 0x05 = Some (srtp_response s (req_audio_master_key r) (req_audio_master_salt r))"
    using set_endpoints_response_decode by blast
  have "char_SetupEndpoints s' = Some resp"
    by (simp add: s')
  with req response show ?thesis
    by (auto simp: srtp_response_def srtp_block_decode)
qed

theorem srtp_blocks_echo_or_sentinel_witness:
  "set_endpoints (example_camera True) setup_req = Returned configured_camera
   \<and> (\<exists>resp response.
         char_SetupEndpoints configured_camera = Some resp \<and> tlv_decode resp = Inr response
       \<and> response 0x04 = Some [0x01, 0x01, 0x00, 0x02, 0x02, 0x11, 0x22, 0x03, 0x02, 0x33, 0x44]
       \<and> response 0x05 = Some [0x01, 0x01, 0x00, 0x02, 0x02, 0x55, 0x66, 0x03, 0x02, 0x77, 0x88])
   \<and> (\<exists>s' resp response.
         set_endpoints (example_camera False) setup_req = Returned s'
       \<and> char_SetupEndpoints s' = Some resp \<and> tlv_decode resp = Inr response
       \<and> response 0x04 = Some [0x01, 0x01, 0x02, 0x02, 0x00, 0x03, 0x00]
       \<and> response 0x05 = Some [0x01, 0x01, 0x02, 0x02, 0x00, 0x03, 0x00])"
proof -
  have secure: "support_srtp (example_camera True)"
    by (simp add: example_camera_def new_camera_def)
  obtain request vb ab video audio vkey vsalt akey asalt resp response where
    req: "tlv_decode setup_req = Inr request"
    and vb: "request 0x04 = Some vb" and video: "tlv_decode vb = Inr video"
    and vkey: "video 0x02 = Some vkey" and vsalt: "video 0x03 = Some vsalt"
    and ab: "request 0x05 = Some ab" and audio: "tlv_decode ab = Inr audio"
    and akey: "audio 0x02 = Some akey" and asalt: "audio 0x03 = Some asalt"
    and resp: "char_SetupEndpoints configured_camera = Some resp"
      "tlv_decode resp = Inr response"
    and blocks: "support_srtp (example_camera True) \<longrightarrow>
               (\<exists>vblock ablock.
                  response 0x04 = Some vblock \<and> response 0x05 = Some ablock
                \<and> vblock = tlv_encode [(0x01, [0x00]), (0x02, vkey), (0x03, vsalt)]
                \<and> ablock = tlv_encode [(0x01, [0x00]), (0x02, akey), (0x03, asalt)]
                \<and> tlv_decode vblock = Inr [0x01 \<mapsto> [0x00], 0x02 \<mapsto> vkey, 0x03 \<mapsto> vsalt]
                \<and> tlv_decode ablock = Inr [0x01 \<mapsto> [0x00], 0x02 \<mapsto> akey, 0x03 \<mapsto> asalt])"
    using srtp_blocks_echo_or_sentinel [OF setup_example] by blast
  have request: "request 0x04 = Some [0x01, 0x01, 0x00, 0x02, 0x02, 0x11, 0x22, 0x03, 0x02, 0x33, 0x44]"
    "request 0x05 = Some [0x01, 0x01, 0x00, 0x02, 0x02, 0x55, 0x66, 0x03, 0x02, 0x77, 0x88]"
    using req by (auto simp: setup_req_decoded)
  have "tlv_decode [0x01, 0x01, 0x00, 0x02, 0x02, 0x11, 0x22, 0x03, 0x02, 0x33, 0x44] = Inr video"
    using vb video request by simp
  then have "video 0x02 = Some [0x11, 0x22]" "video 0x03 = Some [0x33, 0x44]"
    by (auto simp: tlv_decode_def)
  then have v: "vkey = [0x11, 0x22]" "vsalt = [0x33, 0x44]"
    using vkey vsalt by simp_all
  have "tlv_decode [0x01, 0x01, 0x00, 0x02, 0x02, 0x55, 0x66, 0x03, 0x02, 0x77, 0x88] = Inr audio"
    using ab audio request by simp
  then have "audio 0x02 = Some [0x55, 0x66]" "audio 0x03 = Some [0x77, 0x88]"
    by (auto simp: tlv_decode_def)
  then have a: "akey = [0x55, 0x66]" "asalt = [0x77, 0x88]"
    using akey asalt by simp_all
  have "response 0x04 = Some (tlv_encode [(0x01, [0x00]), (0x02, vkey), (0x03, vsalt)])"
    "response 0x05 = Some (tlv_encode [(0x01, [0x00]), (0x02, akey), (0x03, asalt)])"
    using blocks secure by auto
  then have echoed:
    "response 0x04 = Some [0x01, 0x01, 0x00, 0x02, 0x02, 0x11, 0x22, 0x03, 0x02, 0x33, 0x44]"
    "response 0x05 = Some [0x01, 0x01, 0x00, 0x02, 0x02, 0x55, 0x66, 0x03, 0x02, 0x77, 0x88]"
    by (simp_all add: v a tlv_encode_def tlv_encode_pair_def)
  obtain s' where s': "set_endpoints (example_camera False) setup_req = Returned s'"
    using set_endpoints_returns [OF setup_req_parsed] by blast
  have insecure: "\<not> support_srtp (example_camera False)"
    by (simp add: example_camera_def new_camera_def)
  have "\<exists>resp response.
         char_SetupEndpoints s' = Some resp \<and> tlv_decode resp = Inr response
       \<and> response 0x04 = Some [0x01, 0x01, 0x02, 0x02, 0x00, 0x03, 0x00]
       \<and> response 0x05 = Some [0x01, 0x01, 0x02, 0x02, 0x00, 0x03, 0x00]"
    using srtp_blocks_echo_or_sentinel [OF s'] insecure
    by (auto simp: NO_SRTP_def)
  then show ?thesis
    using setup_example s' resp echoed by blast
qed

subsection \<open>C7: request types other than 0, 1 and 4\<close>

text \<open>
  C7. For every request whose session block carries a request type other than 0, 1 and 4,
  the handler returns after logging the error: the session store with every record in it,
  the streaming status and its published value (no \<^verbatim>\<open>set_value\<close> is called), the
  processes and the kill requests are what they were; only \<^verbatim>\<open>selected_config\<close>
  (set on entry) and the log differ.
\<close>

theorem unknown_request_type_changes_nothing:
  assumes "tlv_decode value = Inr objs"
    and "objs SELECTED_STREAM_CONFIGURATION_TYPES_SESSION = Some session_tlv"
    and "tlv_decode session_tlv = Inr session"
    and "session 0x02 = Some (k # ks)"
    and "k \<noteq> 0" and "k \<noteq> 1" and "k \<noteq> 4"
  shows "\<exists>s'. set_selected_stream_configuration s value = Returned s'
           \<and> s' = s\<lparr>selected_config := Some value,
                     logged := logged s @ [Error_unknown_request_type (unat k)]\<rparr>
           \<and> sessions s' = sessions s
           \<and> streaming_status s' = streaming_status s
           \<and> char_StreamingStatus s' = char_StreamingStatus s
           \<and> set_value_calls s' = set_value_calls s
           \<and> processes s' = processes s
           \<and> killed s' = killed s"
  using assms
  by (simp add: set_selected_stream_configuration_def subscript_Some andthen_Inr
      first_byte_Cons unat_byte_eq_iff Let_def)

theorem unknown_request_type_changes_nothing_witness:
  "tlv_decode unknown_req = Inr (session_objs_only 0x09)
   \<and> session_objs_only 0x09 0x01 = Some [0x01, 0x02, 0xAA, 0xBB, 0x02, 0x01, 0x09]
   \<and> tlv_decode [0x01, 0x02, 0xAA, 0xBB, 0x02, 0x01, 0x09]
       = Inr [0x01 \<mapsto> [0xAA, 0xBB], 0x02 \<mapsto> [0x09]]
   \<and> set_selected_stream_configuration streaming_camera unknown_req
       = Returned (streaming_camera\<lparr>selected_config := Some unknown_req,
                                     logged := [Error_unknown_request_type 9]\<rparr>)"
proof -
  have "logged streaming_camera = []"
    by (simp add: streaming_camera_def configured_camera_def example_camera_def new_camera_def)
  then have "set_selected_stream_configuration streaming_camera unknown_req
       = Returned (streaming_camera\<lparr>selected_config := Some unknown_req,
                                     logged := [Error_unknown_request_type 9]\<rparr>)"
    using unknown_request_type_changes_nothing
      [OF unknown_req_objs session_objs_only_session session_block_decoded,
       of 9 "[]" streaming_camera]
    by simp
  then show ?thesis
    using unknown_req_objs session_objs_only_session session_block_decoded by simp
qed

subsection \<open>C8: the attributes of the video advertisement\<close>

text \<open>
  C8. All three numbers of a resolution are packed with \<^verbatim>\<open>struct.pack('<H', ...)\<close>:
  the width and the height are little-endian 16-bit values, and so is the frame rate, which
  takes two bytes where the claim (and \<^verbatim>\<open>_start_stream\<close>, which reads the frame
  rate with \<^verbatim>\<open>'<B'\<close>) has one. For one profile, one level and the resolution
  1920x1080 at 30, the advertisement ends with the attributes block
  \<^verbatim>\<open>01 02 80 07 02 02 38 04 03 02 1E 00\<close>. The blocks do stand under the single
  top-level type 1.
\<close>

theorem video_config_frame_rate_takes_two_bytes:
  "get_supported_video_stream_config
     \<lparr>codec = \<lparr>profiles = [[0x00]], levels = [[0x00]]\<rparr>, resolutions = [(1920, 1080, 30)]\<rparr>
   = Inr [0x01, 0x1C,
            0x01, 0x01, 0x00,
            0x02, 0x09, 0x03, 0x01, 0x00, 0x01, 0x01, 0x00, 0x02, 0x01, 0x00,
            0x03, 0x0C, 0x01, 0x02, 0x80, 0x07, 0x02, 0x02, 0x38, 0x04, 0x03, 0x02, 0x1E, 0x00]"
  by (simp add: get_supported_video_stream_config_def resolution_tlv_def pack_H_def andthen_def
      tlv_encode_def tlv_encode_pair_def)

subsection \<open>C9: stopping does not touch the streaming status\<close>

text \<open>
  C9. \<^verbatim>\<open>_stop_stream\<close> changes nothing but the session store, the kill requests
  and \<^verbatim>\<open>session_id\<close>, whether it returns or raises: in particular the streaming
  status and the published StreamingStatus value stay, and \<^verbatim>\<open>set_value\<close> is not
  called. When it raises, the accessory is as it was. When it returns, the request named a
  session of the store; the store is the one before without that session's record and with
  every other record as it was, \<^verbatim>\<open>kill()\<close> has been called on the process
  handle of that record and on nothing else (on nothing when the record had no handle), and
  \<^verbatim>\<open>session_id\<close> is \<^verbatim>\<open>None\<close>. So after a start or reconfigure request
  that returned, a stop request leaves the status at Streaming (the byte 1) and the
  published value at its encoding, and publishes nothing; when it names a session of the
  store it returns the accessory changed in exactly these four places: the stored request,
  the store, the kill requests and \<^verbatim>\<open>session_id\<close>.
\<close>

theorem stop_never_updates_streaming_status:
  assumes "tlv_decode start_value = Inr start_objs"
    and "start_objs SELECTED_STREAM_CONFIGURATION_TYPES_SESSION = Some start_session_tlv"
    and "tlv_decode start_session_tlv = Inr start_session"
    and "start_session 0x02 = Some (k # ks)"
    and "k = 1 \<or> k = 4"
    and "set_selected_stream_configuration s start_value = Returned s1"
    and "tlv_decode stop_value = Inr stop_objs"
    and "stop_objs SELECTED_STREAM_CONFIGURATION_TYPES_SESSION = Some stop_session_tlv"
    and "tlv_decode stop_session_tlv = Inr stop_session"
    and "stop_session 0x02 = Some (0 # ks')"
  shows "streaming_status (state_of (stop_stream c objs)) = streaming_status c
       \<and> char_StreamingStatus (state_of (stop_stream c objs)) = char_StreamingStatus c
       \<and> char_SetupEndpoints (state_of (stop_stream c objs)) = char_SetupEndpoints c
       \<and> set_value_calls (state_of (stop_stream c objs)) = set_value_calls c
       \<and> processes (state_of (stop_stream c objs)) = processes c
       \<and> logged (state_of (stop_stream c objs)) = logged c
       \<and> selected_config (state_of (stop_stream c objs)) = selected_config c
       \<and> setup_response (state_of (stop_stream c objs)) = setup_response c
       \<and> support_srtp (state_of (stop_stream c objs)) = support_srtp c
       \<and> stream_address (state_of (stop_stream c objs)) = stream_address c
       \<and> stream_address_isv6 (state_of (stop_stream c objs)) = stream_address_isv6 c
       \<and> popen_ok (state_of (stop_stream c objs)) = popen_ok c
       \<and> streaming_status (state_of (set_selected_stream_configuration s1 stop_value))
           = STREAMING_STATUS_STREAMING
       \<and> char_StreamingStatus (state_of (set_selected_stream_configuration s1 stop_value))
           = tlv_encode [(0x01, STREAMING_STATUS_STREAMING)]
       \<and> set_value_calls (state_of (set_selected_stream_configuration s1 stop_value))
           = set_value_calls s1
       \<and> (\<forall>e c'. stop_stream c objs = Raised e c' \<longrightarrow> c' = c)
       \<and> (\<forall>c'. stop_stream c objs = Returned c' \<longrightarrow>
             (\<exists>session_tlv session_objs sid info.
                objs SELECTED_STREAM_CONFIGURATION_TYPES_SESSION = Some session_tlv
              \<and> tlv_decode session_tlv = Inr session_objs
              \<and> session_objs 0x01 = Some sid
              \<and> sessions c sid = Some info
              \<and> sessions c' = (sessions c)(sid := None)
              \<and> killed c' = killed c @ (case process info of None \<Rightarrow> []
                                          | Some ffmpeg_process \<Rightarrow> [ffmpeg_process])
              \<and> session_id c' = None))
       \<and> (\<forall>sid info. stop_session 0x01 = Some sid \<and> sessions s1 sid = Some info \<longrightarrow>
             set_selected_stream_configuration s1 stop_value
             = Returned (s1\<lparr>selected_config := Some stop_value,
                            sessions := (sessions s1)(sid := None),
                            killed := killed s1 @ (case process info of None \<Rightarrow> []
                                                  | Some ffmpeg_process \<Rightarrow> [ffmpeg_process]),
                            session_id := None\<rparr>))"
proof -
  note frame = stop_stream_frame [of c objs]
  note started = start_request_status [OF assms(1-6)]
  note stopped = stop_request_status [OF assms(7-10), of s1]
  have unchanged: "streaming_status (state_of (stop_stream c objs)) = streaming_status c
       \<and> char_StreamingStatus (state_of (stop_stream c objs)) = char_StreamingStatus c
       \<and> char_SetupEndpoints (state_of (stop_stream c objs)) = char_SetupEndpoints c
       \<and> set_value_calls (state_of (stop_stream c objs)) = set_value_calls c
       \<and> processes (state_of (stop_stream c objs)) = processes c
       \<and> logged (state_of (stop_stream c objs)) = logged c
       \<and> selected_config (state_of (stop_stream c objs)) = selected_config c
       \<and> setup_response (state_of (stop_stream c objs)) = setup_response c
       \<and> support_srtp (state_of (stop_stream c objs)) = support_srtp c
       \<and> stream_address (state_of (stop_stream c objs)) = stream_address c
       \<and> stream_address_isv6 (state_of (stop_stream c objs)) = stream_address_isv6 c
       \<and> popen_ok (state_of (stop_stream c objs)) = popen_ok c
       \<and> streaming_status (state_of (set_selected_stream_configuration s1 stop_value))
           = STREAMING_STATUS_STREAMING
       \<and> char_StreamingStatus (state_of (set_selected_stream_configuration s1 stop_value))
           = tlv_encode [(0x01, STREAMING_STATUS_STREAMING)]
       \<and> set_value_calls (state_of (set_selected_stream_configuration s1 stop_value))
           = set_value_calls s1"
    using frame started stopped by simp
  have raised: "\<forall>e c'. stop_stream c objs = Raised e c' \<longrightarrow> c' = c"
    using stop_stream_Raised by blast
  have returned: "\<forall>c'. stop_stream c objs = Returned c' \<longrightarrow>
             (\<exists>session_tlv session_objs sid info.
                objs SELECTED_STREAM_CONFIGURATION_TYPES_SESSION = Some session_tlv
              \<and> tlv_decode session_tlv = Inr session_objs
              \<and> session_objs 0x01 = Some sid
              \<and> sessions c sid = Some info
              \<and> sessions c' = (sessions c)(sid := None)
              \<and> killed c' = killed c @ (case process info of None \<Rightarrow> []
                                          | Some ffmpeg_process \<Rightarrow> [ffmpeg_process])
              \<and> session_id c' = None)"
    using stop_stream_Returned [of c objs] by blast
  have request: "\<forall>sid info. stop_session 0x01 = Some sid \<and> sessions s1 sid = Some info \<longrightarrow>
             set_selected_stream_configuration s1 stop_value
             = Returned (s1\<lparr>selected_config := Some stop_value,
                            sessions := (sessions s1)(sid := None),
                            killed := killed s1 @ (case process info of None \<Rightarrow> []
                                                  | Some ffmpeg_process \<Rightarrow> [ffmpeg_process]),
                            session_id := None\<rparr>)"
    using stop_request_known_session [OF assms(7-10)] by blast
  show ?thesis
    using unchanged raised returned request by blast
qed

theorem stop_never_updates_streaming_status_witness:
  "set_selected_stream_configuration configured_camera start_req = Returned streaming_camera
   \<and> set_selected_stream_configuration streaming_camera stop_req = Returned stopped_camera
   \<and> sessions stopped_camera [0xAA, 0xBB] = None
   \<and> streaming_status stopped_camera = [0x01]
   \<and> char_StreamingStatus stopped_camera = [0x01, 0x01, 0x01]
   \<and> set_value_calls stopped_camera = set_value_calls streaming_camera
   \<and> sessions streaming_camera [0xAA, 0xBB] = Some (example_session\<lparr>process := Some 0\<rparr>)
   \<and> stopped_camera
       = streaming_camera\<lparr>selected_config := Some stop_req,
                           sessions := (sessions streaming_camera)([0xAA, 0xBB] := None),
                           killed := killed streaming_camera @ [0],
                           session_id := None\<rparr>
   \<and> sessions stopped_camera = (sessions streaming_camera)([0xAA, 0xBB] := None)
   \<and> killed streaming_camera = []
   \<and> killed stopped_camera = [0]
   \<and> session_id stopped_camera = None"
proof -
  have effect: "set_selected_stream_configuration streaming_camera stop_req
      = Returned (streaming_camera\<lparr>selected_config := Some stop_req,
                    sessions := (sessions streaming_camera)([0xAA, 0xBB] := None),
                    killed := killed streaming_camera @ [0],
                    session_id := None\<rparr>)"
    using stop_never_updates_streaming_status
      [OF start_req_objs example_objs_session session_block_decoded session_block_type _
          start_example stop_req_objs session_objs_only_session session_block_decoded
          session_block_type]
      streaming_session
    by simp
  have exact: "stopped_camera
       = streaming_camera\<lparr>selected_config := Some stop_req,
                           sessions := (sessions streaming_camera)([0xAA, 0xBB] := None),
                           killed := killed streaming_camera @ [0],
                           session_id := None\<rparr>"
    using effect stop_example by simp
  have before: "killed streaming_camera = []"
    by (simp add: streaming_camera_def configured_camera_def example_camera_def new_camera_def)
  have after: "sessions stopped_camera = (sessions streaming_camera)([0xAA, 0xBB] := None)
      \<and> killed stopped_camera = [0] \<and> session_id stopped_camera = None"
    using before by (subst (1 2 3) exact) simp
  have "streaming_status (state_of (set_selected_stream_configuration streaming_camera stop_req))
          = [0x01]
      \<and> char_StreamingStatus
            (state_of (set_selected_stream_configuration streaming_camera stop_req))
          = tlv_encode [(0x01, [0x01])]
      \<and> set_value_calls
            (state_of (set_selected_stream_configuration streaming_camera stop_req))
          = set_value_calls streaming_camera"
    using stop_never_updates_streaming_status
      [OF start_req_objs example_objs_session session_block_decoded session_block_type _
          start_example stop_req_objs session_objs_only_session session_block_decoded
          session_block_type]
    by simp
  then show ?thesis
    using start_example stop_example stopped_session streaming_session exact before after
    by (simp add: state_of_def tlv_encode_def tlv_encode_pair_def)
qed

subsection \<open>C10: the synchronization sources\<close>

text \<open>
  C10. Whenever \<^verbatim>\<open>set_endpoints\<close> returns, the response carries the one byte 1 as
  the video and as the audio synchronization source, and the stored record holds the same.
  Whenever \<^verbatim>\<open>_start_stream\<close> returns (for a start or a reconfigure), the keyword
  argument \<^verbatim>\<open>video_ssrc\<close> is 1 and the command started says \<^verbatim>\<open>-ssrc 1\<close>,
  whatever the request carried: the example request asks for \<^verbatim>\<open>0x12345678\<close>.
\<close>

theorem ssrc_is_constant_one:
  "(set_endpoints s value = Returned s' \<longrightarrow>
      (\<exists>r resp response info.
         set_endpoints_request value = Inr r
       \<and> char_SetupEndpoints s' = Some resp \<and> tlv_decode resp = Inr response
       \<and> response SETUP_TYPES_VIDEO_SSRC = Some [0x01]
       \<and> response SETUP_TYPES_AUDIO_SSRC = Some [0x01]
       \<and> sessions s' (req_session_id r) = Some info
       \<and> video_ssrc info = [0x01] \<and> audio_ssrc info = [0x01]))
   \<and> (start_stream t objs reconfigure = Returned t' \<longrightarrow>
      (\<exists>sid info kw.
         start_stream_kwargs t objs = Inr (sid, info, kw)
       \<and> kw_video_ssrc kw = 1
       \<and> processes t' = processes t @ [FFMPEG_CMD_format kw]
       \<and> FFMPEG_CMD_format kw ! 4 =
           Text '' -framerate 20 -i /dev/video0 -vcodec copy -an -payload_type 99 -ssrc 1 -f rtsp -b:v ''))"
proof (intro conjI impI)
  assume "set_endpoints s value = Returned s'"
  then obtain r resp where r: "set_endpoints_request value = Inr r"
    and resp: "set_endpoints_response s r = Inr resp"
    and s': "s' = s\<lparr>sessions := (sessions s)(req_session_id r \<mapsto> new_session r),
                     char_SetupEndpoints := Some resp,
                     set_value_calls := set_value_calls s @ [(SetupEndpoints, resp)]\<rparr>"
    using set_endpoints_Returned by blast
  from resp obtain response where "tlv_decode resp = Inr response"
    "response 0x06 = Some [0x01]" "response 0x07 = Some [0x01]"
    using set_endpoints_response_decode by blast
  with r s' show "\<exists>r resp response info.
         set_endpoints_request value = Inr r
       \<and> char_SetupEndpoints s' = Some resp \<and> tlv_decode resp = Inr response
       \<and> response 0x06 = Some [0x01] \<and> response 0x07 = Some [0x01]
       \<and> sessions s' (req_session_id r) = Some info
       \<and> video_ssrc info = [0x01] \<and> audio_ssrc info = [0x01]"
    by (auto simp: new_session_def)
next
  assume "start_stream t objs reconfigure = Returned t'"
  then obtain sid info kw where kw: "start_stream_kwargs t objs = Inr (sid, info, kw)"
    and t': "t' = t\<lparr>processes := processes t @ [FFMPEG_CMD_format kw],
                     sessions := (sessions t)(sid \<mapsto> info\<lparr>process := Some (length (processes t))\<rparr>),
                     streaming_status := [0x01],
                     char_StreamingStatus := tlv_encode [(0x01, [0x01])],
                     set_value_calls :=
                       set_value_calls t @ [(StreamingStatus, tlv_encode [(0x01, [0x01])])]\<rparr>"
    using start_stream_Returned by blast
  from kw have "kw_video_ssrc kw = 1"
    by (rule start_stream_kwargs_ssrc)
  with kw t' show "\<exists>sid info kw.
         start_stream_kwargs t objs = Inr (sid, info, kw)
       \<and> kw_video_ssrc kw = 1
       \<and> processes t' = processes t @ [FFMPEG_CMD_format kw]
       \<and> FFMPEG_CMD_format kw ! 4 =
           Text '' -framerate 20 -i /dev/video0 -vcodec copy -an -payload_type 99 -ssrc 1 -f rtsp -b:v ''"
    by (auto simp: FFMPEG_CMD_format_def)
qed

theorem ssrc_is_constant_one_witness:
  "set_endpoints (example_camera True) setup_req = Returned configured_camera
   \<and> (\<exists>resp response.
         char_SetupEndpoints configured_camera = Some resp \<and> tlv_decode resp = Inr response
       \<and> response 0x06 = Some [0x01] \<and> response 0x07 = Some [0x01])
   \<and> start_stream (configured_camera\<lparr>selected_config := Some start_req\<rparr>) (example_objs 1) False
       = Returned streaming_camera
   \<and> (\<exists>sid info kw.
         start_stream_kwargs (configured_camera\<lparr>selected_config := Some start_req\<rparr>)
           (example_objs 1) = Inr (sid, info, kw)
       \<and> kw_video_ssrc kw = 1
       \<and> processes streaming_camera = [FFMPEG_CMD_format kw])"
proof -
  let ?s0 = "configured_camera\<lparr>selected_config := Some start_req\<rparr>"
  have started: "start_stream ?s0 (example_objs 1) False = Returned streaming_camera"
    using start_example example_dispatch [OF start_req_objs, of configured_camera]
    by (simp add: Let_def)
  have none: "processes ?s0 = []"
    by (simp add: configured_camera_def example_camera_def new_camera_def)
  note both = ssrc_is_constant_one
    [of "example_camera True" setup_req configured_camera ?s0 "example_objs 1" False
        streaming_camera]
  have "\<exists>resp response.
         char_SetupEndpoints configured_camera = Some resp \<and> tlv_decode resp = Inr response
       \<and> response 0x06 = Some [0x01] \<and> response 0x07 = Some [0x01]"
    using both setup_example by blast
  moreover have "\<exists>sid info kw.
         start_stream_kwargs ?s0 (example_objs 1) = Inr (sid, info, kw)
       \<and> kw_video_ssrc kw = 1
       \<and> processes streaming_camera = [FFMPEG_CMD_format kw]"
    using both started none by auto
  ultimately show ?thesis
    using setup_example started by blast
qed

end
